theory Spec2Isabelle
  imports Complex_Main
begin

section \<open>Assisted grasping of the manipulation robot\<close>

text \<open>
  A shallow embedding of the assisted-grasping logic of
  \<^verbatim>\<open>igibson/robots/manipulation_robot.py\<close>: candidate selection, the attachment
  (constraint) that holds an object, the per-arm lifecycle driven by \<^verbatim>\<open>apply_action\<close>,
  the \<^verbatim>\<open>is_grasping\<close> query and \<^verbatim>\<open>dump_state\<close> / \<^verbatim>\<open>load_state\<close>.

  Python floats are modelled as exact reals; body, link and constraint identifiers are
  Python ints. A raise of the source is the left injection of a sum. The physics engine
  is not part of the repository: what the code asks of it in one step is a record of
  query functions (\<open>sim\<close>), what the code changes in it is a record of state (\<open>world\<close>).
\<close>

subsection \<open>Values and constants\<close>

datatype error = AssertionError | ValueError | KeyError | IndexError | TypeError | Exception

datatype IsGraspingState = TRUE | UNKNOWN | FALSE

datatype joint_type =
  JOINT_REVOLUTE | JOINT_PRISMATIC | JOINT_SPHERICAL | JOINT_PLANAR
| JOINT_FIXED | JOINT_POINT2POINT | JOINT_GEAR

type_synonym vec3 = "real \<times> real \<times> real"
type_synonym quat = "real \<times> real \<times> real \<times> real"
type_synonym pose = "vec3 \<times> quat"

definition ASSIST_FRACTION :: real where "ASSIST_FRACTION = 1.0"
definition ARTICULATED_ASSIST_FRACTION :: real where "ARTICULATED_ASSIST_FRACTION = 0.7"
definition MIN_ASSIST_FORCE :: real where "MIN_ASSIST_FORCE = 0"
definition MAX_ASSIST_FORCE :: real where "MAX_ASSIST_FORCE = 500"
definition ASSIST_FORCE :: real where
  "ASSIST_FORCE = MIN_ASSIST_FORCE + (MAX_ASSIST_FORCE - MIN_ASSIST_FORCE) * ASSIST_FRACTION"
definition CONSTRAINT_VIOLATION_THRESHOLD :: real where "CONSTRAINT_VIOLATION_THRESHOLD = 0.1"
definition RELEASE_WINDOW :: real where "RELEASE_WINDOW = 1 / 30.0"
definition POS_TOLERANCE :: real where "POS_TOLERANCE = 0.002"
definition VEL_TOLERANCE :: real where "VEL_TOLERANCE = 0.01"

text \<open>Keys of a Python dict that holds joint names before a reload and ints after it.\<close>

datatype pykey = StrKey string | IntKey int

subsection \<open>The robot model\<close>

record robot_link =
  link_body_id :: int
  link_link_id :: int

record robot_joint =
  joint_name :: string
  joint_body_id :: int
  joint_joint_id :: int

record grasping_point =
  gp_link_name :: string
  gp_position :: vec3

text \<open>
  The gripper controller of an arm, as far as this file reads it: its class, and the
  attributes \<^verbatim>\<open>mode\<close>, \<^verbatim>\<open>control\<close>, \<^verbatim>\<open>motor_type\<close> and \<^verbatim>\<open>limit_tolerance\<close>.
\<close>

datatype controller_class =
  NullGripperController | JointController | ParallelJawGripperController | OtherController

record gripper_controller =
  ctrl_class :: controller_class
  ctrl_mode :: string
  ctrl_control :: "real list option"
  ctrl_motor_type :: string
  ctrl_limit_tolerance :: real

text \<open>
  The properties of the robot that subclasses fix (\<^verbatim>\<open>arm_names\<close>, \<^verbatim>\<open>eef_links\<close>,
  \<^verbatim>\<open>finger_links\<close>, ...) and the constructor argument \<^verbatim>\<open>grasping_mode\<close>. The
  dictionaries keyed by arm name are functions of the arm name; the loops of the source
  only read them at the names of \<open>arm_names\<close>.
\<close>

record robot =
  arm_names :: "string list"
  grasping_mode :: string
  get_body_ids :: "int list"
  eef_links :: "string \<Rightarrow> robot_link"
  finger_links :: "string \<Rightarrow> robot_link list"
  finger_joints :: "string \<Rightarrow> robot_joint list"
  joints :: "string \<rightharpoonup> robot_joint"
  gripper_link_to_grasp_point :: "string \<Rightarrow> vec3"
  assisted_grasp_start_points :: "string \<Rightarrow> grasping_point list option"
  assisted_grasp_end_points :: "string \<Rightarrow> grasping_point list option"
  gripper_controllers :: "string \<Rightarrow> gripper_controller"
  gripper_control_idx :: "string \<Rightarrow> nat list"

text \<open>\<^verbatim>\<open>default_arm\<close> is \<^verbatim>\<open>self.arm_names[0]\<close>, an index error on a robot without arms.\<close>

definition default_arm :: "robot \<Rightarrow> error + string" where
  "default_arm r = (case arm_names r of [] \<Rightarrow> Inl IndexError | arm # _ \<Rightarrow> Inr arm)"

text \<open>The first line of every method with an \<^verbatim>\<open>arm\<close> argument.\<close>

definition resolve_arm :: "robot \<Rightarrow> string \<Rightarrow> error + string" where
  "resolve_arm r arm = (if arm = ''default'' then default_arm r else Inr arm)"

definition finger_link_ids :: "robot \<Rightarrow> string \<Rightarrow> int list" where
  "finger_link_ids r arm = map link_link_id (finger_links r arm)"

subsection \<open>The physics engine and the simulator\<close>

text \<open>
  \<^verbatim>\<open>ContactResult\<close>: of the ten fields of a contact point the code reads the two
  bodies, the two links and the position on the first body.
\<close>

record ContactResult =
  bodyUniqueIdA :: int
  bodyUniqueIdB :: int
  linkIndexA :: int
  linkIndexB :: int
  positionOnA :: vec3

text \<open>
  The queries of one step. \<open>getLinkState\<close> stands for the leading (position, orientation)
  pair of the engine's answer, \<open>getJointInfo2\<close> for component 2 of \<^verbatim>\<open>p.getJointInfo\<close>,
  \<open>rayTestBatch\<close> for the (body, link) pairs of the ray results of one pass,
  \<open>objects_by_id\<close> for the scene's registry with the \<^verbatim>\<open>fixed_base\<close> attribute of an
  object where it has one; the four joint arrays are those of the robot's base class.
\<close>

record sim =
  getContactPoints :: "int \<Rightarrow> int \<Rightarrow> ContactResult list"
  rayTestBatch :: "vec3 list \<Rightarrow> vec3 list \<Rightarrow> nat \<Rightarrow> (int \<times> int) list"
  getLinkState :: "int \<Rightarrow> int \<Rightarrow> pose"
  getBasePositionAndOrientation :: "int \<Rightarrow> pose"
  getJointInfo2 :: "int \<Rightarrow> int \<Rightarrow> joint_type"
  getNumJoints :: "int \<Rightarrow> nat"
  multiplyTransforms :: "pose \<Rightarrow> pose \<Rightarrow> pose"
  invertTransform :: "pose \<Rightarrow> pose"
  link_position_orientation :: "string \<Rightarrow> pose"
  joint_get_state :: "string \<Rightarrow> real"
  get_constraint_violation :: "int option \<Rightarrow> real"
  get_child_frame_pose :: "int \<Rightarrow> int \<Rightarrow> int \<Rightarrow> int \<Rightarrow> pose"
  can_assisted_grasp :: "int \<Rightarrow> int \<Rightarrow> bool"
  objects_by_id :: "int \<rightharpoonup> bool option"
  render_timestep :: real
  joint_positions :: "real list"
  joint_velocities :: "real list"
  joint_lower_limits :: "real list"
  joint_upper_limits :: "real list"

text \<open>
  The engine state the code writes: the constraints by handle, the handle the next
  \<^verbatim>\<open>p.createConstraint\<close> returns, the collision-filter pairs set so far (keyed as
  \<^verbatim>\<open>p.setCollisionFilterPair\<close> takes them: body A, body B, link A, link B), and the
  joint states written by \<^verbatim>\<open>p.resetJointState\<close> (target value, target velocity).
\<close>

record constraint =
  parentBodyUniqueId :: int
  parentLinkIndex :: int
  childBodyUniqueId :: int
  childLinkIndex :: int
  jointType :: joint_type
  jointAxis :: vec3
  parentFramePosition :: vec3
  childFramePosition :: vec3
  parentFrameOrientation :: "quat option"
  childFrameOrientation :: quat
  maxForce :: "real option"

record world =
  constraints :: "int \<rightharpoonup> constraint"
  next_constraint :: int
  collision_filter :: "(int \<times> int \<times> int \<times> int) \<rightharpoonup> bool"
  joint_reset :: "(int \<times> int) \<rightharpoonup> (real \<times> real)"
  remove_none_raises :: bool

definition createConstraint :: "constraint \<Rightarrow> world \<Rightarrow> int \<times> world" where
  "createConstraint c w =
     (next_constraint w,
      w\<lparr>constraints := (constraints w)(next_constraint w \<mapsto> c),
        next_constraint := next_constraint w + 1\<rparr>)"

definition changeConstraint :: "int \<Rightarrow> real \<Rightarrow> world \<Rightarrow> world" where
  "changeConstraint cid f w =
     (case constraints w cid of
        None \<Rightarrow> w
      | Some c \<Rightarrow> w\<lparr>constraints := (constraints w)(cid \<mapsto> c\<lparr>maxForce := Some f\<rparr>)\<rparr>)"

text \<open>
  \<^verbatim>\<open>p.removeConstraint\<close> is handed whatever the arm's handle slot holds. What the
  engine does with \<^verbatim>\<open>None\<close> is the engine's matter: \<open>remove_none_raises\<close> says
  whether it raises.
\<close>

definition removeConstraint :: "int option \<Rightarrow> world \<Rightarrow> error + world" where
  "removeConstraint cid w =
     (case cid of
        None \<Rightarrow> if remove_none_raises w then Inl TypeError else Inr w
      | Some h \<Rightarrow> Inr (w\<lparr>constraints := (constraints w)(h := None)\<rparr>))"

definition setCollisionFilterPair :: "int \<Rightarrow> int \<Rightarrow> int \<Rightarrow> int \<Rightarrow> bool \<Rightarrow> world \<Rightarrow> world" where
  "setCollisionFilterPair bodyA bodyB linkA linkB enable w =
     w\<lparr>collision_filter := (collision_filter w)((bodyA, bodyB, linkA, linkB) \<mapsto> enable)\<rparr>"

definition resetJointState :: "int \<Rightarrow> int \<Rightarrow> real \<Rightarrow> real \<Rightarrow> world \<Rightarrow> world" where
  "resetJointState b j v vel w = w\<lparr>joint_reset := (joint_reset w)((b, j) \<mapsto> (v, vel))\<rparr>"

text \<open>\<^verbatim>\<open>set_coll_filter\<close>: every source link against link -1 and every joint of the target.\<close>

definition target_link_idxs :: "sim \<Rightarrow> int \<Rightarrow> int list" where
  "target_link_idxs q target_body_id = (-1) # map int [0 ..< getNumJoints q target_body_id]"

definition set_coll_filter :: "sim \<Rightarrow> int \<Rightarrow> robot_link list \<Rightarrow> bool \<Rightarrow> world \<Rightarrow> world" where
  "set_coll_filter q target_body_id source_links enable w =
     fold (\<lambda>link w1.
        fold (\<lambda>target_link_idx.
                setCollisionFilterPair (link_body_id link) target_body_id
                  (link_link_id link) target_link_idx enable)
             (target_link_idxs q target_body_id) w1)
       source_links w"

subsection \<open>The grasp state of one arm\<close>

text \<open>
  \<^verbatim>\<open>_ag_obj_cid_params[arm]\<close> is a dict with up to six keys; \<^verbatim>\<open>{}\<close> has none.
\<close>

record cid_params =
  p_childBodyUniqueId :: "int option"
  p_childLinkIndex :: "int option"
  p_jointType :: "joint_type option"
  p_maxForce :: "real option"
  p_childFramePosition :: "vec3 option"
  p_childFrameOrientation :: "quat option"

definition empty_params :: cid_params where
  "empty_params = \<lparr>p_childBodyUniqueId = None, p_childLinkIndex = None, p_jointType = None,
     p_maxForce = None, p_childFramePosition = None, p_childFrameOrientation = None\<rparr>"

record arm_state =
  ag_data :: "(int \<times> int) option"
  ag_freeze_joint_pos :: "(pykey \<times> real) list"
  ag_obj_in_hand :: "int option"
  ag_obj_cid :: "int option"
  ag_obj_cid_params :: cid_params
  ag_freeze_gripper :: "bool option"
  ag_release_counter :: "int option"

text \<open>The values \<^verbatim>\<open>__init__\<close> gives every arm.\<close>

definition init_arm :: arm_state where
  "init_arm = \<lparr>ag_data = None, ag_freeze_joint_pos = [], ag_obj_in_hand = None,
     ag_obj_cid = None, ag_obj_cid_params = empty_params, ag_freeze_gripper = None,
     ag_release_counter = None\<rparr>"

text \<open>Python truth of an optional int (\<^verbatim>\<open>None\<close> and \<^verbatim>\<open>0\<close> are false) and of an optional bool.\<close>

definition truthy_int :: "int option \<Rightarrow> bool" where
  "truthy_int v = (case v of None \<Rightarrow> False | Some n \<Rightarrow> n \<noteq> 0)"

definition truthy_bool :: "bool option \<Rightarrow> bool" where
  "truthy_bool v = (case v of None \<Rightarrow> False | Some b \<Rightarrow> b)"

subsection \<open>Contacts and ray casts of a gripper\<close>

text \<open>
  Python sets are lists without duplicates here; their iteration order, which CPython
  leaves to the hash table, is the order of the list.
\<close>

definition con_results :: "robot \<Rightarrow> sim \<Rightarrow> string \<Rightarrow> ContactResult list" where
  "con_results r q arm =
     concat (map (\<lambda>link. getContactPoints q (link_body_id link) (link_link_id link))
                 (finger_links r arm))"

definition not_self_collision :: "robot \<Rightarrow> string \<Rightarrow> int \<Rightarrow> bool" where
  "not_self_collision r arm b = (b \<notin> {-1, link_body_id (eef_links r arm)})"

definition obj_con_info :: "ContactResult \<Rightarrow> int \<times> int" where
  "obj_con_info con_res = (bodyUniqueIdB con_res, linkIndexB con_res)"

definition robot_contact_links :: "ContactResult list \<Rightarrow> (int \<times> int) \<rightharpoonup> int set" where
  "robot_contact_links cs =
     (\<lambda>k. if k \<in> set (map obj_con_info cs)
          then Some (set (map linkIndexA (filter (\<lambda>c. obj_con_info c = k) cs)))
          else None)"

text \<open>The contact results that pass the test against a robot self-collision.\<close>

definition gripper_contacts :: "robot \<Rightarrow> sim \<Rightarrow> string \<Rightarrow> ContactResult list" where
  "gripper_contacts r q arm =
     filter (\<lambda>c. not_self_collision r arm (bodyUniqueIdB c)) (con_results r q arm)"

definition find_gripper_contacts ::
  "robot \<Rightarrow> sim \<Rightarrow> string \<Rightarrow> (int \<times> int) list \<times> ((int \<times> int) \<rightharpoonup> int set)" where
  "find_gripper_contacts r q arm =
     (let cs = gripper_contacts r q arm
      in (remdups (map obj_con_info cs), robot_contact_links cs))"

text \<open>The same with \<^verbatim>\<open>return_contact_positions=True\<close>: triples with the contact position.\<close>

definition find_gripper_contacts_positions ::
  "robot \<Rightarrow> sim \<Rightarrow> string \<Rightarrow> (int \<times> int \<times> vec3) list \<times> ((int \<times> int) \<rightharpoonup> int set)" where
  "find_gripper_contacts_positions r q arm =
     (let cs = gripper_contacts r q arm
      in (remdups (map (\<lambda>c. (bodyUniqueIdB c, linkIndexB c, positionOnA c)) cs),
          robot_contact_links cs))"

definition grasp_point_world :: "sim \<Rightarrow> grasping_point \<Rightarrow> vec3" where
  "grasp_point_world q g =
     fst (multiplyTransforms q (link_position_orientation q (gp_link_name g))
            (gp_position g, (0, 0, 0, 1)))"

definition find_gripper_raycast_collisions ::
  "robot \<Rightarrow> sim \<Rightarrow> string \<Rightarrow> error + (int \<times> int) list" where
  "find_gripper_raycast_collisions r q arm =
     (case assisted_grasp_start_points r arm of
        None \<Rightarrow> Inl AssertionError
      | Some start_points \<Rightarrow>
     (case assisted_grasp_end_points r arm of
        None \<Rightarrow> Inl AssertionError
      | Some end_points \<Rightarrow>
         (let startpoints = map (grasp_point_world q) start_points;
              endpoints = map (grasp_point_world q) end_points;
              n_startpoints = length startpoints;
              n_endpoints = length endpoints;
              raycast_startpoints = concat (replicate n_endpoints startpoints);
              raycast_endpoints = concat (map (replicate n_startpoints) endpoints);
              ray_results =
                concat (map (rayTestBatch q raycast_startpoints raycast_endpoints) [0 ..< 2])
          in Inr (remdups (filter (\<lambda>ray_res. not_self_collision r arm (fst ray_res))
                                  ray_results)))))"

subsection \<open>Candidate selection\<close>

text \<open>
  The first half of \<^verbatim>\<open>_calculate_in_hand_object\<close>: the candidate set that goes to the
  distance ranking, with the map from a candidate to the robot links touching it.
\<close>

definition candidates_set ::
  "robot \<Rightarrow> sim \<Rightarrow> string \<Rightarrow> error + ((int \<times> int) list \<times> ((int \<times> int) \<rightharpoonup> int set))" where
  "candidates_set r q arm =
     (if grasping_mode r \<noteq> ''physical'' then
        (let (cands, links) = find_gripper_contacts r q arm
         in if grasping_mode r = ''assisted'' then
              (case find_gripper_raycast_collisions r q arm of
                 Inl e \<Rightarrow> Inl e
               | Inr candidates_set_raycast \<Rightarrow>
                   Inr (filter (\<lambda>c. c \<in> set candidates_set_raycast) cands, links))
            else Inr (cands, links))
      else Inl ValueError)"

definition gripper_center_pos :: "robot \<Rightarrow> sim \<Rightarrow> string \<Rightarrow> vec3" where
  "gripper_center_pos r q arm =
     (let gripper_state =
            getLinkState q (link_body_id (eef_links r arm)) (link_link_id (eef_links r arm))
      in fst (multiplyTransforms q gripper_state
                (gripper_link_to_grasp_point r arm, (0, 0, 0, 1))))"

definition norm_diff :: "vec3 \<Rightarrow> vec3 \<Rightarrow> real" where
  "norm_diff a b =
     (case a of (ax, ay, az) \<Rightarrow> case b of (bx, by, bz) \<Rightarrow>
        sqrt ((ax - bx)\<^sup>2 + (ay - by)\<^sup>2 + (az - bz)\<^sup>2))"

definition candidate_data :: "robot \<Rightarrow> sim \<Rightarrow> string \<Rightarrow> (int \<times> int) list \<Rightarrow> (int \<times> int \<times> real) list" where
  "candidate_data r q arm cands =
     map (\<lambda>(body_id, link_id).
            (let link_pos = fst (if link_id = -1 then getBasePositionAndOrientation q body_id
                                 else getLinkState q body_id link_id)
             in (body_id, link_id, norm_diff link_pos (gripper_center_pos r q arm))))
         cands"

text \<open>\<^verbatim>\<open>sorted(candidate_data, key=lambda x: x[2])[0]\<close>, on a list that is not empty.\<close>

definition nearest :: "robot \<Rightarrow> sim \<Rightarrow> string \<Rightarrow> (int \<times> int) list \<Rightarrow> int \<times> int" where
  "nearest r q arm cands =
     (case hd (sort_key (\<lambda>x. snd (snd x)) (candidate_data r q arm cands)) of
        (ag_bid, ag_link, _) \<Rightarrow> (ag_bid, ag_link))"

text \<open>The finger links of the arm that touch a candidate: what the two-finger test counts.\<close>

definition fingers_touching :: "robot \<Rightarrow> sim \<Rightarrow> string \<Rightarrow> int \<times> int \<Rightarrow> int set" where
  "fingers_touching r q arm k =
     set (finger_link_ids r arm)
       \<inter> set (map linkIndexA (filter (\<lambda>c. obj_con_info c = k) (gripper_contacts r q arm)))"

definition calculate_in_hand_object :: "robot \<Rightarrow> sim \<Rightarrow> string \<Rightarrow> error + (int \<times> int) option" where
  "calculate_in_hand_object r q arm =
     (case candidates_set r q arm of
        Inl e \<Rightarrow> Inl e
      | Inr (cands, links) \<Rightarrow>
          if length cands = 0 then Inr None
          else
            (case nearest r q arm cands of (ag_bid, ag_link) \<Rightarrow>
               if ag_bid \<in> set (get_body_ids r) then Inl AssertionError
               else
                 (case links (ag_bid, ag_link) of
                    None \<Rightarrow> Inl KeyError
                  | Some robot_contacts \<Rightarrow>
                      (let touching_at_least_two_fingers =
                             (card (set (finger_link_ids r arm) \<inter> robot_contacts) \<ge> 2)
                       in if (\<not> can_assisted_grasp q ag_bid ag_link)
                             \<or> (\<not> touching_at_least_two_fingers)
                          then Inr None
                          else Inr (Some (ag_bid, ag_link))))))"

subsection \<open>Establishing and releasing a grasp\<close>

definition dict_set :: "'k \<Rightarrow> 'v \<Rightarrow> ('k \<times> 'v) list \<Rightarrow> ('k \<times> 'v) list" where
  "dict_set k v d = (if k \<in> fst ` set d then map (\<lambda>(k', v'). if k' = k then (k', v) else (k', v')) d
                     else d @ [(k, v)])"

definition articulated_child :: "sim \<Rightarrow> int \<Rightarrow> int \<Rightarrow> bool" where
  "articulated_child q ag_bid ag_link =
     (ag_link \<noteq> -1
      \<and> getJointInfo2 q ag_bid ag_link \<in> {JOINT_REVOLUTE, JOINT_PRISMATIC}
      \<and> (case objects_by_id q ag_bid of
            None \<Rightarrow> False
          | Some attr \<Rightarrow> (case attr of None \<Rightarrow> False | Some fixed_base \<Rightarrow> fixed_base)))"

definition establish_grasp ::
  "robot \<Rightarrow> sim \<Rightarrow> string \<Rightarrow> (int \<times> int) option \<Rightarrow> world \<times> arm_state
     \<Rightarrow> error + (world \<times> arm_state)" where
  "establish_grasp r q arm data ws =
     (case ws of (w, s) \<Rightarrow>
      case data of
        None \<Rightarrow> Inr (w, s)
      | Some (ag_bid, ag_link) \<Rightarrow>
         (let joint_type = (if articulated_child q ag_bid ag_link
                            then JOINT_POINT2POINT else JOINT_FIXED);
              force_data = fst (find_gripper_contacts_positions r q arm)
          in case find (\<lambda>(c_bid, c_link, c_contact_pos). (c_bid, c_link) = (ag_bid, ag_link))
                       force_data of
               None \<Rightarrow> Inl AssertionError
             | Some (c_bid, c_link, contact_pos) \<Rightarrow>
                (let joint_frame = (contact_pos, (0, 0, 0, 1));
                     eef = eef_links r arm;
                     eef_link_pose = getLinkState q (link_body_id eef) (link_link_id eef);
                     parent_frame = multiplyTransforms q (invertTransform q eef_link_pose) joint_frame;
                     obj_pose = (if ag_link = -1 then getBasePositionAndOrientation q ag_bid
                                 else getLinkState q ag_bid ag_link);
                     child_frame = multiplyTransforms q (invertTransform q obj_pose) joint_frame;
                     (cid, w1) = createConstraint
                        \<lparr>parentBodyUniqueId = link_body_id eef,
                         parentLinkIndex = link_link_id eef,
                         childBodyUniqueId = ag_bid,
                         childLinkIndex = ag_link,
                         jointType = joint_type,
                         jointAxis = (0, 0, 0),
                         parentFramePosition = fst parent_frame,
                         childFramePosition = fst child_frame,
                         parentFrameOrientation = Some (snd parent_frame),
                         childFrameOrientation = snd child_frame,
                         maxForce = None\<rparr> w;
                     max_force = (if joint_type = JOINT_FIXED then ASSIST_FORCE
                                  else ASSIST_FORCE * ARTICULATED_ASSIST_FRACTION);
                     w2 = changeConstraint cid max_force w1;
                     w3 = set_coll_filter q ag_bid (finger_links r arm) False w2
                 in Inr (w3,
                      s\<lparr>ag_obj_cid := Some cid,
                        ag_obj_cid_params :=
                          \<lparr>p_childBodyUniqueId = Some ag_bid, p_childLinkIndex = Some ag_link,
                           p_jointType = Some joint_type, p_maxForce = Some max_force,
                           p_childFramePosition = None, p_childFrameOrientation = None\<rparr>,
                        ag_obj_in_hand := Some ag_bid,
                        ag_freeze_gripper := Some True,
                        ag_freeze_joint_pos :=
                          fold (\<lambda>joint. dict_set (StrKey (joint_name joint))
                                                  (joint_get_state q (joint_name joint)))
                               (finger_joints r arm) (ag_freeze_joint_pos s)\<rparr>))))"

definition release_grasp :: "world \<times> arm_state \<Rightarrow> error + (world \<times> arm_state)" where
  "release_grasp ws =
     (case ws of (w, s) \<Rightarrow>
      case removeConstraint (ag_obj_cid s) w of
        Inl e \<Rightarrow> Inl e
      | Inr w1 \<Rightarrow>
          Inr (w1, s\<lparr>ag_data := None, ag_obj_cid := None, ag_obj_cid_params := empty_params,
                     ag_freeze_gripper := Some False, ag_release_counter := Some 0\<rparr>))"

definition handle_release_window ::
  "robot \<Rightarrow> sim \<Rightarrow> string \<Rightarrow> world \<times> arm_state \<Rightarrow> error + (world \<times> arm_state)" where
  "handle_release_window r q arm ws =
     (case ws of (w, s) \<Rightarrow>
      case ag_release_counter s of
        None \<Rightarrow> Inl TypeError
      | Some k \<Rightarrow>
         (let counter = k + 1;
              time_since_release = real_of_int counter * render_timestep q
          in if time_since_release \<ge> RELEASE_WINDOW then
               (case ag_obj_in_hand s of
                  None \<Rightarrow> Inl TypeError
                | Some obj \<Rightarrow>
                    Inr (set_coll_filter q obj (finger_links r arm) True w,
                         s\<lparr>ag_obj_in_hand := None, ag_release_counter := None\<rparr>))
             else Inr (w, s\<lparr>ag_release_counter := Some counter\<rparr>)))"

definition freeze_gripper :: "robot \<Rightarrow> world \<times> arm_state \<Rightarrow> error + world" where
  "freeze_gripper r ws =
     (case ws of (w, s) \<Rightarrow>
      fold (\<lambda>(key, j_val) acc.
              case acc of
                Inl e \<Rightarrow> Inl e
              | Inr w1 \<Rightarrow>
                 (case key of
                    IntKey n \<Rightarrow> Inl KeyError
                  | StrKey name \<Rightarrow>
                     (case joints r name of
                        None \<Rightarrow> Inl KeyError
                      | Some joint \<Rightarrow>
                          Inr (resetJointState (joint_body_id joint) (joint_joint_id joint)
                                 j_val 0 w1))))
           (ag_freeze_joint_pos s) (Inr w))"

subsection \<open>The lifecycle of one step\<close>

text \<open>
  The body of the loop of \<^verbatim>\<open>_handle_assisted_grasping\<close> for one arm. \<open>action\<close> gives
  the gripper command of the arm, the slice
  \<^verbatim>\<open>action[self.controller_action_idx["gripper_{}".format(arm)]]\<close> of the action vector.
\<close>

definition handle_arm ::
  "robot \<Rightarrow> sim \<Rightarrow> (string \<Rightarrow> real) \<Rightarrow> string \<Rightarrow> world \<times> arm_state
     \<Rightarrow> error + (world \<times> arm_state)" where
  "handle_arm r q action arm ws =
     (case ws of (w, s) \<Rightarrow>
      if ctrl_mode (gripper_controllers r arm) \<noteq> ''binary'' then Inl AssertionError
      else
        (let applying_grasp = (action arm < 0.0);
             releasing_grasp = (action arm \<ge> 0.0)
         in if truthy_int (ag_obj_in_hand s) then
              (if ag_release_counter s \<noteq> None then handle_release_window r q arm (w, s)
               else
                 (let constraint_violated =
                        (get_constraint_violation q (ag_obj_cid s) > CONSTRAINT_VIOLATION_THRESHOLD)
                  in if constraint_violated \<or> releasing_grasp then release_grasp (w, s)
                     else Inr (w, s)))
            else if applying_grasp then
              (case calculate_in_hand_object r q arm of
                 Inl e \<Rightarrow> Inl e
               | Inr data \<Rightarrow> establish_grasp r q arm data (w, s\<lparr>ag_data := data\<rparr>))
            else Inr (w, s)))"

text \<open>
  The state of the robot: the engine state and the grasp state of every arm. The seven
  dictionaries of the source have the arm names as their keys from \<^verbatim>\<open>__init__\<close> on.
\<close>

type_synonym robot_state = "world \<times> (string \<Rightarrow> arm_state)"

fun handle_arms ::
  "robot \<Rightarrow> sim \<Rightarrow> (string \<Rightarrow> real) \<Rightarrow> string list \<Rightarrow> robot_state \<Rightarrow> error + robot_state" where
  "handle_arms r q action [] st = Inr st"
| "handle_arms r q action (arm # arms) (w, ag) =
     (case handle_arm r q action arm (w, ag arm) of
        Inl e \<Rightarrow> Inl e
      | Inr (w1, s1) \<Rightarrow> handle_arms r q action arms (w1, ag(arm := s1)))"

definition handle_assisted_grasping ::
  "robot \<Rightarrow> sim \<Rightarrow> (string \<Rightarrow> real) \<Rightarrow> robot_state \<Rightarrow> error + robot_state" where
  "handle_assisted_grasping r q action st = handle_arms r q action (arm_names r) st"

fun freeze_arms :: "robot \<Rightarrow> string list \<Rightarrow> robot_state \<Rightarrow> error + robot_state" where
  "freeze_arms r [] st = Inr st"
| "freeze_arms r (arm # arms) (w, ag) =
     (if truthy_bool (ag_freeze_gripper (ag arm)) then
        (case freeze_gripper r (w, ag arm) of
           Inl e \<Rightarrow> Inl e
         | Inr w1 \<Rightarrow> freeze_arms r arms (w1, ag))
      else freeze_arms r arms (w, ag))"

text \<open>
  \<^verbatim>\<open>apply_action\<close>, up to the call of the base class's method, which is not in this
  file and has no access path to the grasp dictionaries written here.
\<close>

definition apply_action ::
  "robot \<Rightarrow> sim \<Rightarrow> (string \<Rightarrow> real) \<Rightarrow> robot_state \<Rightarrow> error + robot_state" where
  "apply_action r q action st =
     (case (if grasping_mode r \<noteq> ''physical'' then handle_assisted_grasping r q action st
            else Inr st) of
        Inl e \<Rightarrow> Inl e
      | Inr st1 \<Rightarrow> freeze_arms r (arm_names r) st1)"

definition init_state :: "world \<Rightarrow> robot_state" where
  "init_state w = (w, \<lambda>arm. init_arm)"

subsection \<open>Sequences of steps\<close>

text \<open>
  A run applies \<^verbatim>\<open>apply_action\<close> once per step, each step with the engine's answers
  of that step and the action of that step; a raise ends the run.
\<close>

fun run :: "robot \<Rightarrow> (sim \<times> (string \<Rightarrow> real)) list \<Rightarrow> robot_state \<Rightarrow> error + robot_state" where
  "run r [] st = Inr st"
| "run r ((q, action) # steps) st =
     (case apply_action r q action st of
        Inl e \<Rightarrow> Inl e
      | Inr st1 \<Rightarrow> run r steps st1)"

text \<open>The grasp state of one arm after a run from the initial state, if the run returns.\<close>

definition arm_after :: "robot \<Rightarrow> (sim \<times> (string \<Rightarrow> real)) list \<Rightarrow> world \<Rightarrow> string \<Rightarrow> arm_state option" where
  "arm_after r steps w arm =
     (case run r steps (init_state w) of Inl e \<Rightarrow> None | Inr st \<Rightarrow> Some (snd st arm))"

text \<open>
  What every step keeps true of an arm: the handle and the freeze flag go with a held
  object whose release has not begun, and a release counter goes with a held object
  that Python takes for true, a cleared freeze flag and a binary gripper controller.
\<close>

definition arm_inv :: "robot \<Rightarrow> string \<Rightarrow> arm_state \<Rightarrow> bool" where
  "arm_inv r arm s =
     ((ag_obj_cid s \<noteq> None) = (ag_obj_in_hand s \<noteq> None \<and> ag_release_counter s = None)
      \<and> (ag_freeze_gripper s = Some True) = (ag_obj_in_hand s \<noteq> None \<and> ag_release_counter s = None)
      \<and> (ag_release_counter s = None \<or>
           (truthy_int (ag_obj_in_hand s) \<and> ag_freeze_gripper s = Some False
            \<and> ctrl_mode (gripper_controllers r arm) = ''binary'')))"

subsection \<open>The grasping query\<close>

text \<open>
  The numpy operations of \<^verbatim>\<open>is_grasping\<close> on one-dimensional arrays: indexing by an
  index array, subtraction with broadcasting of a one-element array, and the mean, which
  is \<^verbatim>\<open>nan\<close> on an empty array and then fails every comparison.
\<close>

definition np_take :: "real list \<Rightarrow> nat list \<Rightarrow> error + real list" where
  "np_take xs idx =
     (if \<forall>i \<in> set idx. i < length xs then Inr (map (\<lambda>i. xs ! i) idx) else Inl IndexError)"

definition np_sub :: "real list \<Rightarrow> real list \<Rightarrow> error + real list" where
  "np_sub xs ys =
     (if length xs = length ys then Inr (map2 (-) xs ys)
      else if length ys = 1 then Inr (map (\<lambda>x. x - hd ys) xs)
      else if length xs = 1 then Inr (map (\<lambda>y. hd xs - y) ys)
      else Inl ValueError)"

definition np_mean :: "real list \<Rightarrow> real option" where
  "np_mean xs = (if xs = [] then None else Some (sum_list xs / real (length xs)))"

definition mean_less :: "real list \<Rightarrow> real \<Rightarrow> bool" where
  "mean_less xs t = (case np_mean xs of None \<Rightarrow> False | Some m \<Rightarrow> m < t)"

definition mean_greater :: "real list \<Rightarrow> real \<Rightarrow> bool" where
  "mean_greater xs t = (case np_mean xs of None \<Rightarrow> False | Some m \<Rightarrow> m > t)"

definition and_then :: "error + 'a \<Rightarrow> ('a \<Rightarrow> error + 'b) \<Rightarrow> error + 'b" where
  "and_then x f = (case x of Inl e \<Rightarrow> Inl e | Inr v \<Rightarrow> f v)"

text \<open>The last branch of the parallel-jaw case: the last control meant to move the gripper.\<close>

definition moving_gripper_state :: "robot \<Rightarrow> sim \<Rightarrow> string \<Rightarrow> error + IsGraspingState" where
  "moving_gripper_state r q arm =
     and_then (np_take (joint_positions q) (gripper_control_idx r arm)) (\<lambda>finger_pos.
     and_then (np_take (joint_velocities q) (gripper_control_idx r arm)) (\<lambda>finger_vel.
     and_then (np_take (joint_lower_limits q) (gripper_control_idx r arm)) (\<lambda>min_pos.
     and_then (np_take (joint_upper_limits q) (gripper_control_idx r arm)) (\<lambda>max_pos.
       if \<not> (\<forall>(lo, x, hi) \<in> set (zip min_pos (zip finger_pos max_pos)). lo \<le> x \<and> x \<le> hi)
       then Inl AssertionError
       else
         (let dist_from_lower_limit = map2 (-) finger_pos min_pos;
              dist_from_upper_limit = map2 (-) max_pos finger_pos;
              valid_grasp_pos = (mean_greater dist_from_lower_limit POS_TOLERANCE
                                 \<and> mean_greater dist_from_upper_limit POS_TOLERANCE);
              valid_grasp_vel = (\<forall>v \<in> set finger_vel. \<bar>v\<bar> < VEL_TOLERANCE)
          in Inr (if valid_grasp_pos \<and> valid_grasp_vel then TRUE else FALSE))))))"

definition parallel_jaw_state :: "robot \<Rightarrow> sim \<Rightarrow> string \<Rightarrow> error + IsGraspingState" where
  "parallel_jaw_state r q arm =
     (let gripper_controller = gripper_controllers r arm
      in if ctrl_mode gripper_controller = ''independent'' then Inr UNKNOWN
         else
           (case ctrl_control gripper_controller of
              None \<Rightarrow> Inr FALSE
            | Some control \<Rightarrow>
               (case control of
                  [] \<Rightarrow> Inl IndexError
                | c0 # _ \<Rightarrow>
                   if \<not> (\<forall>c \<in> set control. c = c0) then Inl AssertionError
                   else if \<not> (POS_TOLERANCE > ctrl_limit_tolerance gripper_controller)
                   then Inl AssertionError
                   else
                     and_then (np_take (joint_positions q) (gripper_control_idx r arm))
                       (\<lambda>finger_pos.
                     and_then (if ctrl_motor_type gripper_controller = ''position''
                               then and_then (np_sub finger_pos control)
                                      (\<lambda>d. Inr (mean_less (map abs d) POS_TOLERANCE))
                               else Inr False) (\<lambda>at_target.
                       if at_target then Inr UNKNOWN
                       else if ctrl_motor_type gripper_controller \<in> {''velocity'', ''torque''}
                               \<and> mean_less (map abs control) VEL_TOLERANCE
                       then Inr UNKNOWN
                       else moving_gripper_state r q arm)))))"

text \<open>
  \<^verbatim>\<open>is_grasping\<close>. \<open>candidate_obj\<close> is compared with the held body id; \<open>None\<close> asks
  for any object. Both branches begin with a dictionary read at the arm name.
\<close>

definition is_grasping ::
  "robot \<Rightarrow> sim \<Rightarrow> (string \<Rightarrow> arm_state) \<Rightarrow> string \<Rightarrow> int option \<Rightarrow> error + IsGraspingState" where
  "is_grasping r q ag arm0 candidate_obj =
     and_then (resolve_arm r arm0) (\<lambda>arm.
       if arm \<notin> set (arm_names r) then Inl KeyError
       else if grasping_mode r \<noteq> ''physical'' then
         (let is_grasping_obj =
                (case candidate_obj of
                   None \<Rightarrow> ag_obj_in_hand (ag arm) \<noteq> None
                 | Some obj \<Rightarrow> ag_obj_in_hand (ag arm) = Some obj)
          in Inr (if is_grasping_obj \<and> ag_release_counter (ag arm) = None
                  then TRUE else FALSE))
       else
         (case ctrl_class (gripper_controllers r arm) of
            NullGripperController \<Rightarrow> Inr FALSE
          | JointController \<Rightarrow> Inr UNKNOWN
          | ParallelJawGripperController \<Rightarrow> parallel_jaw_state r q arm
          | OtherController \<Rightarrow> Inl Exception))"

subsection \<open>Snapshot and restore\<close>

text \<open>
  Python's \<^verbatim>\<open>int\<close> on a dictionary key: an int is returned as it is; a string is
  stripped of white space and must then be an optional sign and decimal digits, single
  underscores allowed between digits (ASCII only here).
\<close>

definition py_space :: "char \<Rightarrow> bool" where
  "py_space c = (c \<in> set [CHR '' '', CHR 0x09, CHR 0x0A, CHR 0x0B, CHR 0x0C, CHR 0x0D,
                             CHR 0x1C, CHR 0x1D, CHR 0x1E, CHR 0x1F])"

definition py_strip :: "string \<Rightarrow> string" where
  "py_strip s = rev (dropWhile py_space (rev (dropWhile py_space s)))"

definition is_digit :: "char \<Rightarrow> bool" where
  "is_digit c = (c \<in> set ''0123456789'')"

fun digits_ok :: "string \<Rightarrow> bool" where
  "digits_ok [] = False"
| "digits_ok [c] = is_digit c"
| "digits_ok (c # d # cs) =
     (is_digit c \<and> (if d = CHR ''_'' then digits_ok cs else digits_ok (d # cs)))"

definition digits_value :: "string \<Rightarrow> int" where
  "digits_value s =
     foldl (\<lambda>acc c. 10 * acc + (of_char c - 48)) 0 (filter (\<lambda>c. c \<noteq> CHR ''_'') s)"

definition py_int_str :: "string \<Rightarrow> error + int" where
  "py_int_str s =
     (let t = py_strip s;
          (sign, body) = (case t of
                            [] \<Rightarrow> (1, [])
                          | c # cs \<Rightarrow> if c = CHR ''+'' then (1, cs)
                                      else if c = CHR ''-'' then (-1, cs)
                                      else (1, t))
      in if digits_ok body then Inr (sign * digits_value body) else Inl ValueError)"

definition py_int :: "pykey \<Rightarrow> error + int" where
  "py_int k = (case k of IntKey n \<Rightarrow> Inr n | StrKey s \<Rightarrow> py_int_str s)"

text \<open>\<^verbatim>\<open>{int(key): val for key, val in d.items()}\<close>\<close>

fun int_keys :: "(pykey \<times> real) list \<Rightarrow> (pykey \<times> real) list \<Rightarrow> error + (pykey \<times> real) list" where
  "int_keys [] acc = Inr acc"
| "int_keys ((key, val) # rest) acc =
     (case py_int key of
        Inl e \<Rightarrow> Inl e
      | Inr n \<Rightarrow> int_keys rest (dict_set (IntKey n) val acc))"

text \<open>
  The values of the dictionary under \<^verbatim>\<open>"ManipulationRobot"\<close>: optional ints (held body,
  release counter, handle), an optional bool (freeze flag), the frozen joint positions
  and the attachment parameters. A dump is that dictionary, or \<open>None\<close> when the key is
  absent (physical mode).
\<close>

datatype dump_val =
  DInt "int option" | DBool "bool option" | DJointPos "(pykey \<times> real) list" | DParams cid_params

type_synonym ag_dump = "(string \<times> dump_val) list"

definition ag_key :: "string \<Rightarrow> string \<Rightarrow> string" where
  "ag_key arm field = ''_ag_'' @ arm @ ''_'' @ field"

text \<open>\<^verbatim>\<open>dump_state\<close>, the part after the base class's dump.\<close>

definition refresh_child_frame :: "robot \<Rightarrow> sim \<Rightarrow> string \<Rightarrow> arm_state \<Rightarrow> error + arm_state" where
  "refresh_child_frame r q arm s =
     (if ag_obj_cid s \<noteq> None then
        (case p_childBodyUniqueId (ag_obj_cid_params s) of
           None \<Rightarrow> Inl KeyError
         | Some ag_bid \<Rightarrow>
        (case p_childLinkIndex (ag_obj_cid_params s) of
           None \<Rightarrow> Inl KeyError
         | Some ag_link \<Rightarrow>
            (let child_frame = get_child_frame_pose q (link_body_id (eef_links r arm))
                                 (link_link_id (eef_links r arm)) ag_bid ag_link
             in Inr (s\<lparr>ag_obj_cid_params := (ag_obj_cid_params s)
                         \<lparr>p_childFramePosition := Some (fst child_frame),
                          p_childFrameOrientation := Some (snd child_frame)\<rparr>\<rparr>))))
      else Inr s)"

definition arm_dump :: "string \<Rightarrow> arm_state \<Rightarrow> ag_dump" where
  "arm_dump arm s =
     [(ag_key arm ''obj_in_hand'', DInt (ag_obj_in_hand s)),
      (ag_key arm ''release_counter'', DInt (ag_release_counter s)),
      (ag_key arm ''freeze_gripper'', DBool (ag_freeze_gripper s)),
      (ag_key arm ''freeze_joint_pos'', DJointPos (ag_freeze_joint_pos s)),
      (ag_key arm ''obj_cid'', DInt (ag_obj_cid s)),
      (ag_key arm ''obj_cid_params'', DParams (ag_obj_cid_params s))]"

fun dump_arms ::
  "robot \<Rightarrow> sim \<Rightarrow> string list \<Rightarrow> (string \<Rightarrow> arm_state) \<times> ag_dump
     \<Rightarrow> error + ((string \<Rightarrow> arm_state) \<times> ag_dump)" where
  "dump_arms r q [] acc = Inr acc"
| "dump_arms r q (arm # arms) (ag, ag_dump) =
     (case refresh_child_frame r q arm (ag arm) of
        Inl e \<Rightarrow> Inl e
      | Inr s1 \<Rightarrow>
          dump_arms r q arms
            (ag(arm := s1), fold (\<lambda>(k, v). dict_set k v) (arm_dump arm s1) ag_dump))"

definition dump_state ::
  "robot \<Rightarrow> sim \<Rightarrow> (string \<Rightarrow> arm_state) \<Rightarrow> error + ((string \<Rightarrow> arm_state) \<times> ag_dump option)" where
  "dump_state r q ag =
     (if grasping_mode r = ''physical'' then Inr (ag, None)
      else (case dump_arms r q (arm_names r) (ag, []) of
              Inl e \<Rightarrow> Inl e
            | Inr (ag1, ag_dump) \<Rightarrow> Inr (ag1, Some ag_dump)))"

text \<open>
  \<^verbatim>\<open>load_state\<close>, the part after the base class's load. A field is read under its
  current name if the dump has it and under its old name otherwise; a missing name is a
  key error. A value of another kind than the field holds is outside this model and is
  reported as a type error.
\<close>

definition field_name :: "ag_dump \<Rightarrow> string \<Rightarrow> string \<Rightarrow> string \<Rightarrow> string" where
  "field_name robot_dump arm field old =
     (if ag_key arm field \<in> fst ` set robot_dump then ag_key arm field else old)"

definition dump_get :: "ag_dump \<Rightarrow> string \<Rightarrow> error + dump_val" where
  "dump_get robot_dump k = (case map_of robot_dump k of None \<Rightarrow> Inl KeyError | Some v \<Rightarrow> Inr v)"

definition get_int :: "ag_dump \<Rightarrow> string \<Rightarrow> error + int option" where
  "get_int robot_dump k =
     and_then (dump_get robot_dump k) (\<lambda>v. case v of DInt n \<Rightarrow> Inr n | _ \<Rightarrow> Inl TypeError)"

definition get_bool :: "ag_dump \<Rightarrow> string \<Rightarrow> error + bool option" where
  "get_bool robot_dump k =
     and_then (dump_get robot_dump k) (\<lambda>v. case v of DBool b \<Rightarrow> Inr b | _ \<Rightarrow> Inl TypeError)"

definition get_joint_pos :: "ag_dump \<Rightarrow> string \<Rightarrow> error + (pykey \<times> real) list" where
  "get_joint_pos robot_dump k =
     and_then (dump_get robot_dump k) (\<lambda>v. case v of DJointPos d \<Rightarrow> Inr d | _ \<Rightarrow> Inl TypeError)"

definition get_params :: "ag_dump \<Rightarrow> string \<Rightarrow> error + cid_params" where
  "get_params robot_dump k =
     and_then (dump_get robot_dump k) (\<lambda>v. case v of DParams p \<Rightarrow> Inr p | _ \<Rightarrow> Inl TypeError)"

definition param :: "'a option \<Rightarrow> error + 'a" where
  "param v = (case v of None \<Rightarrow> Inl KeyError | Some x \<Rightarrow> Inr x)"

text \<open>The attachment \<^verbatim>\<open>load_state\<close> creates from the stored parameters.\<close>

definition restore_constraint ::
  "robot \<Rightarrow> string \<Rightarrow> cid_params \<Rightarrow> world \<Rightarrow> error + (int \<times> world)" where
  "restore_constraint r arm ps w =
     and_then (param (p_childBodyUniqueId ps)) (\<lambda>child_body.
     and_then (param (p_childLinkIndex ps)) (\<lambda>child_link.
     and_then (param (p_jointType ps)) (\<lambda>joint_type.
     and_then (param (p_childFramePosition ps)) (\<lambda>child_pos.
     and_then (param (p_childFrameOrientation ps)) (\<lambda>child_orn.
       (let (cid, w1) = createConstraint
              \<lparr>parentBodyUniqueId = link_body_id (eef_links r arm),
               parentLinkIndex = link_link_id (eef_links r arm),
               childBodyUniqueId = child_body,
               childLinkIndex = child_link,
               jointType = joint_type,
               jointAxis = (0, 0, 0),
               parentFramePosition = (0, 0, 0),
               childFramePosition = child_pos,
               parentFrameOrientation = None,
               childFrameOrientation = child_orn,
               maxForce = None\<rparr> w
        in and_then (param (p_maxForce ps)) (\<lambda>max_force.
             Inr (cid, changeConstraint cid max_force w1))))))))"

definition load_arm ::
  "robot \<Rightarrow> sim \<Rightarrow> ag_dump option \<Rightarrow> string \<Rightarrow> world \<times> arm_state
     \<Rightarrow> error + (world \<times> arm_state)" where
  "load_arm r q dump arm ws =
     (case ws of (w, s) \<Rightarrow>
      and_then (if ag_obj_cid s \<noteq> None then removeConstraint (ag_obj_cid s) w else Inr w)
        (\<lambda>w1.
      (let w2 = (case ag_obj_in_hand s of
                   None \<Rightarrow> w1
                 | Some obj \<Rightarrow> set_coll_filter q obj (finger_links r arm) True w1)
       in and_then (param dump) (\<lambda>robot_dump.
          and_then (get_int robot_dump
                      (field_name robot_dump arm ''obj_in_hand'' ''object_in_hand''))
            (\<lambda>obj_in_hand.
          and_then (get_int robot_dump
                      (field_name robot_dump arm ''release_counter'' ''release_counter''))
            (\<lambda>release_counter.
          and_then (get_bool robot_dump
                      (field_name robot_dump arm ''freeze_gripper'' ''should_freeze_joints''))
            (\<lambda>freeze_gripper.
          and_then (get_joint_pos robot_dump
                      (field_name robot_dump arm ''freeze_joint_pos'' ''freeze_vals''))
            (\<lambda>joint_pos.
          and_then (int_keys joint_pos []) (\<lambda>freeze_joint_pos.
          and_then (get_int robot_dump (field_name robot_dump arm ''obj_cid'' ''obj_cid''))
            (\<lambda>obj_cid.
          and_then (get_params robot_dump
                      (field_name robot_dump arm ''obj_cid_params'' ''obj_cid_params''))
            (\<lambda>obj_cid_params.
          and_then (if obj_cid \<noteq> None
                    then and_then (restore_constraint r arm obj_cid_params w2)
                           (\<lambda>(cid, w3). Inr (Some cid, w3))
                    else Inr (obj_cid, w2))
            (\<lambda>(cid, w3).
             Inr (case obj_in_hand of
                    None \<Rightarrow> w3
                  | Some obj \<Rightarrow> set_coll_filter q obj (finger_links r arm) False w3,
                  s\<lparr>ag_obj_in_hand := obj_in_hand,
                    ag_release_counter := release_counter,
                    ag_freeze_gripper := freeze_gripper,
                    ag_freeze_joint_pos := freeze_joint_pos,
                    ag_obj_cid := cid,
                    ag_obj_cid_params := obj_cid_params\<rparr>)))))))))))))"

fun load_arms ::
  "robot \<Rightarrow> sim \<Rightarrow> ag_dump option \<Rightarrow> string list \<Rightarrow> robot_state \<Rightarrow> error + robot_state" where
  "load_arms r q dump [] st = Inr st"
| "load_arms r q dump (arm # arms) (w, ag) =
     (case load_arm r q dump arm (w, ag arm) of
        Inl e \<Rightarrow> Inl e
      | Inr (w1, s1) \<Rightarrow> load_arms r q dump arms (w1, ag(arm := s1)))"

definition load_state :: "robot \<Rightarrow> sim \<Rightarrow> ag_dump option \<Rightarrow> robot_state \<Rightarrow> error + robot_state" where
  "load_state r q dump st =
     (if grasping_mode r = ''physical'' then Inr st
      else load_arms r q dump (arm_names r) st)"

text \<open>A snapshot followed at once by a restore of it, and the same after a run of steps.\<close>

definition snapshot_restore :: "robot \<Rightarrow> sim \<Rightarrow> robot_state \<Rightarrow> error + robot_state" where
  "snapshot_restore r q st =
     (case dump_state r q (snd st) of
        Inl e \<Rightarrow> Inl e
      | Inr (ag1, dump) \<Rightarrow> load_state r q dump (fst st, ag1))"

definition snapshot_restore_after ::
  "robot \<Rightarrow> (sim \<times> (string \<Rightarrow> real)) list \<Rightarrow> sim \<Rightarrow> world \<Rightarrow> error + robot_state" where
  "snapshot_restore_after r steps q w =
     (case run r steps (init_state w) of
        Inl e \<Rightarrow> Inl e
      | Inr st \<Rightarrow> snapshot_restore r q st)"

subsection \<open>A concrete robot, engine and step\<close>

text \<open>
  One arm \<open>''0''\<close> on robot body 1, end effector link 7, finger links 8 and 9, one finger
  joint. In \<open>touch_sim b v\<close> both fingers touch body \<open>b\<close> (whole-body link -1), every body
  is eligible for assisted grasping, the constraint violation is \<open>v\<close>, and a step lasts
  1/60 second.
\<close>

definition binary_jaw :: gripper_controller where
  "binary_jaw = \<lparr>ctrl_class = ParallelJawGripperController, ctrl_mode = ''binary'',
     ctrl_control = None, ctrl_motor_type = ''position'', ctrl_limit_tolerance = 0.001\<rparr>"

definition finger_joint :: robot_joint where
  "finger_joint = \<lparr>joint_name = ''finger_joint'', joint_body_id = 1, joint_joint_id = 8\<rparr>"

definition one_arm_robot :: "string \<Rightarrow> robot" where
  "one_arm_robot mode =
     \<lparr>arm_names = [''0''], grasping_mode = mode, get_body_ids = [1],
      eef_links = (\<lambda>arm. \<lparr>link_body_id = 1, link_link_id = 7\<rparr>),
      finger_links = (\<lambda>arm. [\<lparr>link_body_id = 1, link_link_id = 8\<rparr>,
                               \<lparr>link_body_id = 1, link_link_id = 9\<rparr>]),
      finger_joints = (\<lambda>arm. [finger_joint]),
      joints = [''finger_joint'' \<mapsto> finger_joint],
      gripper_link_to_grasp_point = (\<lambda>arm. (0, 0, 0)),
      assisted_grasp_start_points = (\<lambda>arm. None),
      assisted_grasp_end_points = (\<lambda>arm. None),
      gripper_controllers = (\<lambda>arm. binary_jaw),
      gripper_control_idx = (\<lambda>arm. [0])\<rparr>"

definition origin :: pose where
  "origin = ((0, 0, 0), (0, 0, 0, 1))"

definition touch_sim :: "int \<Rightarrow> real \<Rightarrow> sim" where
  "touch_sim b v =
     \<lparr>getContactPoints = (\<lambda>bodyA linkA.
         if linkA = 8 \<or> linkA = 9
         then [\<lparr>bodyUniqueIdA = bodyA, bodyUniqueIdB = b, linkIndexA = linkA,
                 linkIndexB = -1, positionOnA = (0, 0, 0)\<rparr>]
         else []),
      rayTestBatch = (\<lambda>starts ends i. []),
      getLinkState = (\<lambda>body link. origin),
      getBasePositionAndOrientation = (\<lambda>body. origin),
      getJointInfo2 = (\<lambda>body link. JOINT_FIXED),
      getNumJoints = (\<lambda>body. 0),
      multiplyTransforms = (\<lambda>a b. b),
      invertTransform = (\<lambda>a. a),
      link_position_orientation = (\<lambda>name. origin),
      joint_get_state = (\<lambda>name. 0.02),
      get_constraint_violation = (\<lambda>cid. v),
      get_child_frame_pose = (\<lambda>pb pl cb cl. origin),
      can_assisted_grasp = (\<lambda>body link. True),
      objects_by_id = Map.empty,
      render_timestep = 1 / 60,
      joint_positions = [0.02],
      joint_velocities = [0],
      joint_lower_limits = [0],
      joint_upper_limits = [0.05]\<rparr>"

definition empty_world :: world where
  "empty_world = \<lparr>constraints = Map.empty, next_constraint = 0, collision_filter = Map.empty,
     joint_reset = Map.empty, remove_none_raises = True\<rparr>"

definition close_cmd :: "string \<Rightarrow> real" where
  "close_cmd = (\<lambda>arm. -1)"

definition open_cmd :: "string \<Rightarrow> real" where
  "open_cmd = (\<lambda>arm. 1)"

text \<open>The arm after closing on body 5 and then opening: the release window has begun.\<close>

definition releasing_arm :: arm_state where
  "releasing_arm = \<lparr>ag_data = None, ag_freeze_joint_pos = [(StrKey ''finger_joint'', 0.02)],
     ag_obj_in_hand = Some 5, ag_obj_cid = None, ag_obj_cid_params = empty_params,
     ag_freeze_gripper = Some False, ag_release_counter = Some 0\<rparr>"

text \<open>An engine whose \<^verbatim>\<open>removeConstraint\<close> returns when it is handed \<^verbatim>\<open>None\<close>.\<close>

definition tolerant_world :: world where
  "tolerant_world = empty_world\<lparr>remove_none_raises := False\<rparr>"

text \<open>
  Variants of the concrete robot and engine: a robot of two bodies (1 and 2), an engine
  in which only finger link 8 touches body \<open>b\<close>, a robot with grasping points for the
  assisted mode, and an engine whose rays hit body 6 only.
\<close>

definition two_body_robot :: robot where
  "two_body_robot = (one_arm_robot ''sticky'')\<lparr>get_body_ids := [1, 2]\<rparr>"

definition one_finger_sim :: "int \<Rightarrow> sim" where
  "one_finger_sim b =
     (touch_sim b 0)\<lparr>getContactPoints := (\<lambda>bodyA linkA.
         if linkA = 8
         then [\<lparr>bodyUniqueIdA = bodyA, bodyUniqueIdB = b, linkIndexA = linkA,
                 linkIndexB = -1, positionOnA = (0, 0, 0)\<rparr>]
         else [])\<rparr>"

definition assisted_robot :: robot where
  "assisted_robot =
     (one_arm_robot ''assisted'')
       \<lparr>assisted_grasp_start_points :=
          (\<lambda>arm. Some [\<lparr>gp_link_name = ''left_finger'', gp_position = (0, 0, 0)\<rparr>]),
        assisted_grasp_end_points :=
          (\<lambda>arm. Some [\<lparr>gp_link_name = ''right_finger'', gp_position = (0, 0, 0)\<rparr>])\<rparr>"

definition ray_sim :: sim where
  "ray_sim = (touch_sim 5 0)\<lparr>rayTestBatch := (\<lambda>starts ends i. [(6, -1)])\<rparr>"

text \<open>The concrete robot without finger joints: nothing to freeze.\<close>

definition jointless_robot :: robot where
  "jointless_robot = (one_arm_robot ''sticky'')\<lparr>finger_joints := (\<lambda>arm. [])\<rparr>"

text \<open>
  Two more engines: in \<open>hinge_sim\<close> both fingers touch link 2 of body 5, a child on a
  revolute joint of an object with a fixed base; in \<open>two_object_sim\<close> both fingers touch
  the bodies 5 and 6 (in this order), body 5 at distance 3 and body 6 at distance 1 from
  the grasp centre.
\<close>

definition hinge_sim :: sim where
  "hinge_sim =
     (touch_sim 5 0)
       \<lparr>getContactPoints := (\<lambda>bodyA linkA.
          if linkA = 8 \<or> linkA = 9
          then [\<lparr>bodyUniqueIdA = bodyA, bodyUniqueIdB = 5, linkIndexA = linkA,
                  linkIndexB = 2, positionOnA = (0, 0, 0)\<rparr>]
          else []),
        getJointInfo2 := (\<lambda>body link. JOINT_REVOLUTE),
        objects_by_id := [5 \<mapsto> Some True]\<rparr>"

definition two_object_sim :: sim where
  "two_object_sim =
     (touch_sim 5 0)
       \<lparr>getContactPoints := (\<lambda>bodyA linkA.
          if linkA = 8 \<or> linkA = 9
          then [\<lparr>bodyUniqueIdA = bodyA, bodyUniqueIdB = 5, linkIndexA = linkA,
                  linkIndexB = -1, positionOnA = (0, 0, 0)\<rparr>,
                \<lparr>bodyUniqueIdA = bodyA, bodyUniqueIdB = 6, linkIndexA = linkA,
                  linkIndexB = -1, positionOnA = (0, 0, 0)\<rparr>]
          else []),
        getBasePositionAndOrientation := (\<lambda>body.
          if body = 5 then ((3, 0, 0), (0, 0, 0, 1))
          else if body = 6 then ((0, 1, 0), (0, 0, 0, 1))
          else origin)\<rparr>"

subsection \<open>Facts about the engine state\<close>

lemma fold_setCollisionFilterPair_constraints:
  "constraints (fold (\<lambda>t. setCollisionFilterPair a b c t e) ts w) = constraints w"
  by (induction ts arbitrary: w) (simp_all add: setCollisionFilterPair_def)

lemma set_coll_filter_constraints:
  "constraints (set_coll_filter q b links e w) = constraints w"
  unfolding set_coll_filter_def
  by (induction links arbitrary: w) (simp_all add: fold_setCollisionFilterPair_constraints)

lemma fold_setCollisionFilterPair_lookup:
  "collision_filter (fold (\<lambda>t. setCollisionFilterPair a b c t e) ts w) k =
     (if k \<in> (\<lambda>t. (a, b, c, t)) ` set ts then Some e else collision_filter w k)"
  by (induction ts arbitrary: w) (auto simp add: setCollisionFilterPair_def)

lemma set_coll_filter_lookup:
  "collision_filter (set_coll_filter q b links e w) k =
     (if k \<in> (\<lambda>(l, t). (link_body_id l, b, link_link_id l, t)) `
              (set links \<times> set (target_link_idxs q b))
      then Some e else collision_filter w k)"
  unfolding set_coll_filter_def
proof (induction links arbitrary: w)
  case Nil
  show ?case by simp
next
  case (Cons l links)
  show ?case
    by (simp add: Cons.IH fold_setCollisionFilterPair_lookup) (auto simp add: image_iff)
qed

subsection \<open>The invariant of the lifecycle\<close>

lemma establish_grasp_inv:
  assumes "establish_grasp r q arm data (w, s) = Inr (w', s')"
    and "arm_inv r arm s" and "\<not> truthy_int (ag_obj_in_hand s)"
  shows "arm_inv r arm s'"
  using assms
  by (auto simp add: establish_grasp_def arm_inv_def Let_def createConstraint_def
      split: option.splits prod.splits if_splits)

lemma release_grasp_inv:
  assumes "release_grasp (w, s) = Inr (w', s')"
    and "truthy_int (ag_obj_in_hand s)" and "ctrl_mode (gripper_controllers r arm) = ''binary''"
  shows "arm_inv r arm s'"
  using assms
  by (auto simp add: release_grasp_def arm_inv_def truthy_int_def
      split: option.splits sum.splits)

lemma handle_release_window_inv:
  assumes "handle_release_window r q arm (w, s) = Inr (w', s')"
    and "arm_inv r arm s"
  shows "arm_inv r arm s'"
  using assms
  by (auto simp add: handle_release_window_def arm_inv_def Let_def
      split: option.splits if_splits)

lemma handle_arm_inv:
  assumes "handle_arm r q action arm (w, s) = Inr (w', s')" and "arm_inv r arm s"
  shows "arm_inv r arm s'"
proof (cases "truthy_int (ag_obj_in_hand s)")
  case True
  show ?thesis
  proof (cases "ag_release_counter s")
    case None
    with True assms show ?thesis
      by (auto simp add: handle_arm_def Let_def split: if_splits
          dest: release_grasp_inv [where r = r and arm = arm])
  next
    case (Some k)
    with True assms show ?thesis
      by (auto simp add: handle_arm_def Let_def split: if_splits
          dest: handle_release_window_inv)
  qed
next
  case False
  have inv0: "arm_inv r arm (s\<lparr>ag_data := d\<rparr>)" for d
    using assms(2) by (simp add: arm_inv_def)
  from False assms(1) show ?thesis
    using assms(2) establish_grasp_inv [where s = "s\<lparr>ag_data := d\<rparr>" for d, OF _ inv0]
    by (auto simp add: handle_arm_def Let_def split: if_splits sum.splits)
qed

lemma handle_arms_inv:
  assumes "handle_arms r q action arms (w, ag) = Inr (w', ag')"
    and "\<forall>arm. arm_inv r arm (ag arm)"
  shows "\<forall>arm. arm_inv r arm (ag' arm)"
  using assms
proof (induction arms arbitrary: w ag)
  case Nil
  then show ?case by simp
next
  case (Cons a arms)
  from Cons.prems(1) obtain w1 s1 where
    h: "handle_arm r q action a (w, ag a) = Inr (w1, s1)"
    and rest: "handle_arms r q action arms (w1, ag(a := s1)) = Inr (w', ag')"
    by (auto split: sum.splits)
  have "arm_inv r a s1"
    using handle_arm_inv [OF h] Cons.prems(2) by simp
  with Cons.prems(2) have "\<forall>arm. arm_inv r arm ((ag(a := s1)) arm)"
    by simp
  from Cons.IH [OF rest this] show ?case .
qed

lemma freeze_arms_snd:
  "freeze_arms r arms (w, ag) = Inr (w', ag') \<Longrightarrow> ag' = ag"
  by (induction arms arbitrary: w) (auto split: if_splits sum.splits)

lemma apply_action_inv:
  assumes "apply_action r q action (w, ag) = Inr (w', ag')"
    and "\<forall>arm. arm_inv r arm (ag arm)"
  shows "\<forall>arm. arm_inv r arm (ag' arm)"
proof (cases "grasping_mode r \<noteq> ''physical''")
  case True
  with assms(1) obtain w1 ag1 where
    h: "handle_arms r q action (arm_names r) (w, ag) = Inr (w1, ag1)"
    and f: "freeze_arms r (arm_names r) (w1, ag1) = Inr (w', ag')"
    by (auto simp add: apply_action_def handle_assisted_grasping_def split: sum.splits)
  from freeze_arms_snd [OF f] handle_arms_inv [OF h assms(2)] show ?thesis by simp
next
  case False
  with assms(1) have "freeze_arms r (arm_names r) (w, ag) = Inr (w', ag')"
    by (simp add: apply_action_def)
  from freeze_arms_snd [OF this] assms(2) show ?thesis by simp
qed

lemma run_inv:
  assumes "run r steps (w, ag) = Inr (w', ag')"
    and "\<forall>arm. arm_inv r arm (ag arm)"
  shows "\<forall>arm. arm_inv r arm (ag' arm)"
  using assms
proof (induction steps arbitrary: w ag)
  case Nil
  then show ?case by simp
next
  case (Cons step steps)
  obtain q action where step: "step = (q, action)" by (cases step)
  from Cons.prems(1) step obtain w1 ag1 where
    a: "apply_action r q action (w, ag) = Inr (w1, ag1)"
    and rest: "run r steps (w1, ag1) = Inr (w', ag')"
    by (auto split: sum.splits)
  from Cons.IH [OF rest apply_action_inv [OF a Cons.prems(2)]] show ?case .
qed

lemma init_arm_inv: "arm_inv r arm init_arm"
  by (simp add: arm_inv_def init_arm_def truthy_int_def)

lemma reachable_inv:
  assumes "run r steps (init_state w0) = Inr (w, ag)"
  shows "arm_inv r arm (ag arm)"
  using run_inv [of r steps w0 "\<lambda>arm. init_arm" w ag] assms init_arm_inv
  by (simp add: init_state_def)

subsection \<open>Evaluating the concrete robot\<close>

lemmas model_defs =
  arm_after_def one_arm_robot_def touch_sim_def close_cmd_def open_cmd_def empty_world_def
  init_state_def init_arm_def apply_action_def handle_assisted_grasping_def handle_arm_def
  binary_jaw_def finger_joint_def origin_def truthy_int_def truthy_bool_def
  calculate_in_hand_object_def candidates_set_def find_gripper_contacts_def gripper_contacts_def
  con_results_def
  not_self_collision_def obj_con_info_def robot_contact_links_def nearest_def candidate_data_def
  gripper_center_pos_def norm_diff_def finger_link_ids_def establish_grasp_def
  find_gripper_contacts_positions_def articulated_child_def createConstraint_def
  changeConstraint_def set_coll_filter_def target_link_idxs_def setCollisionFilterPair_def
  dict_set_def release_grasp_def removeConstraint_def freeze_gripper_def resetJointState_def
  handle_release_window_def Let_def ASSIST_FORCE_def MIN_ASSIST_FORCE_def MAX_ASSIST_FORCE_def
  ASSIST_FRACTION_def ARTICULATED_ASSIST_FRACTION_def CONSTRAINT_VIOLATION_THRESHOLD_def
  RELEASE_WINDOW_def empty_params_def

lemmas snapshot_defs =
  snapshot_restore_after_def snapshot_restore_def dump_state_def load_state_def load_arm_def
  refresh_child_frame_def arm_dump_def ag_key_def field_name_def dump_get_def get_int_def
  get_bool_def get_joint_pos_def get_params_def param_def restore_constraint_def and_then_def
  py_int_def py_int_str_def py_strip_def py_space_def is_digit_def digits_value_def

lemma close_open_releasing:
  "arm_after (one_arm_robot ''sticky'') [(touch_sim 5 0, close_cmd), (touch_sim 5 0, open_cmd)]
     empty_world ''0'' = Some releasing_arm"
  by (simp add: model_defs releasing_arm_def)

lemma arm_after_inv:
  assumes "arm_after r steps w0 arm = Some s"
  shows "arm_inv r arm s"
proof -
  from assms obtain w ag where "run r steps (init_state w0) = Inr (w, ag)" and "s = ag arm"
    by (auto simp add: arm_after_def split: sum.splits)
  with reachable_inv show ?thesis by blast
qed

subsection \<open>Claims about the lifecycle\<close>

text \<open>
  C1, as the code has it. After every run of steps from the initial state, the
  constraint handle of an arm is set if and only if its held-object reference is set and
  no release counter is present: the handle goes with the Holding state. Beginning a
  release removes the constraint and clears the handle at once, while the held-object
  reference stays until the release window has passed.
\<close>

theorem handle_iff_holding:
  assumes "arm_after r steps w0 arm = Some s"
  shows "(ag_obj_cid s \<noteq> None) = (ag_obj_in_hand s \<noteq> None \<and> ag_release_counter s = None)"
  using arm_after_inv [OF assms] by (simp add: arm_inv_def)

theorem handle_iff_holding_witness:
  "arm_after (one_arm_robot ''sticky'') [(touch_sim 5 0, close_cmd), (touch_sim 5 0, open_cmd)]
     empty_world ''0'' = Some releasing_arm
   \<and> (ag_obj_cid releasing_arm \<noteq> None)
       = (ag_obj_in_hand releasing_arm \<noteq> None \<and> ag_release_counter releasing_arm = None)"
  using close_open_releasing handle_iff_holding [OF close_open_releasing] by simp

text \<open>
  C1 as stated fails: after closing on body 5 and then opening, the held-object
  reference is set and the constraint handle is not.
\<close>

theorem handle_iff_held_counterexample:
  "map_option ag_obj_in_hand
     (arm_after (one_arm_robot ''sticky'') [(touch_sim 5 0, close_cmd), (touch_sim 5 0, open_cmd)]
        empty_world ''0'') = Some (Some 5)
   \<and> map_option ag_obj_cid
     (arm_after (one_arm_robot ''sticky'') [(touch_sim 5 0, close_cmd), (touch_sim 5 0, open_cmd)]
        empty_world ''0'') = Some None"
  by (simp add: close_open_releasing releasing_arm_def)

text \<open>
  C2, as the code has it. After every run of steps from the initial state, the freeze
  flag of an arm is true exactly in the Holding state (held-object reference set, no
  release counter); in the Releasing state the flag is \<^verbatim>\<open>False\<close>, so \<^verbatim>\<open>apply_action\<close>
  does not drive the fingers to the frozen targets during the release window.
\<close>

theorem freeze_iff_holding:
  assumes "arm_after r steps w0 arm = Some s"
  shows "truthy_bool (ag_freeze_gripper s)
           = (ag_obj_in_hand s \<noteq> None \<and> ag_release_counter s = None)
         \<and> (ag_release_counter s = None \<or> ag_freeze_gripper s = Some False)"
  using arm_after_inv [OF assms]
  by (cases "ag_freeze_gripper s") (auto simp add: arm_inv_def truthy_bool_def)

theorem freeze_iff_holding_witness:
  "arm_after (one_arm_robot ''sticky'') [(touch_sim 5 0, close_cmd), (touch_sim 5 0, open_cmd)]
     empty_world ''0'' = Some releasing_arm
   \<and> truthy_bool (ag_freeze_gripper releasing_arm)
       = (ag_obj_in_hand releasing_arm \<noteq> None \<and> ag_release_counter releasing_arm = None)
   \<and> ag_freeze_gripper releasing_arm = Some False"
  using close_open_releasing freeze_iff_holding [OF close_open_releasing]
  by (simp add: releasing_arm_def)

text \<open>
  C2 as stated fails: after closing on body 5 and then opening, the held-object
  reference is set, the release counter is present and the freeze flag is \<^verbatim>\<open>False\<close>.
\<close>

theorem freeze_while_held_counterexample:
  "map_option ag_obj_in_hand
     (arm_after (one_arm_robot ''sticky'') [(touch_sim 5 0, close_cmd), (touch_sim 5 0, open_cmd)]
        empty_world ''0'') = Some (Some 5)
   \<and> map_option ag_release_counter
     (arm_after (one_arm_robot ''sticky'') [(touch_sim 5 0, close_cmd), (touch_sim 5 0, open_cmd)]
        empty_world ''0'') = Some (Some 0)
   \<and> map_option ag_freeze_gripper
     (arm_after (one_arm_robot ''sticky'') [(touch_sim 5 0, close_cmd), (touch_sim 5 0, open_cmd)]
        empty_world ''0'') = Some (Some False)"
  by (simp add: close_open_releasing releasing_arm_def)

text \<open>
  C3, as the code has it. On an arm in the Idle state (no held object, no constraint
  handle) the release operation hands the absent handle to the engine's
  \<^verbatim>\<open>removeConstraint\<close>; if that call raises, so does the release, and if it returns, the
  engine state, the held-object reference and the constraint handle are as before, but
  the freeze flag is set to \<^verbatim>\<open>False\<close> and the release counter to 0.
\<close>

theorem release_grasp_idle:
  assumes "ag_obj_in_hand s = None" and "ag_obj_cid s = None"
  shows "release_grasp (w, s) =
           (if remove_none_raises w then Inl TypeError
            else Inr (w, s\<lparr>ag_data := None, ag_obj_cid_params := empty_params,
                           ag_freeze_gripper := Some False, ag_release_counter := Some 0\<rparr>))"
  using assms by (simp add: release_grasp_def removeConstraint_def)

theorem release_grasp_idle_witness:
  "ag_obj_in_hand init_arm = None \<and> ag_obj_cid init_arm = None
   \<and> release_grasp (tolerant_world, init_arm) =
       Inr (tolerant_world, init_arm\<lparr>ag_data := None, ag_obj_cid_params := empty_params,
              ag_freeze_gripper := Some False, ag_release_counter := Some 0\<rparr>)"
  using release_grasp_idle [of init_arm tolerant_world]
  by (simp add: init_arm_def tolerant_world_def empty_world_def)

text \<open>
  C3 as stated fails: released in its initial, idle state, the arm either raises (an
  engine that rejects \<^verbatim>\<open>None\<close>) or ends with a release counter of 0 and a freeze flag
  of \<^verbatim>\<open>False\<close>, which the idle state did not have.
\<close>

theorem release_grasp_idle_counterexample:
  "release_grasp (empty_world, init_arm) = Inl TypeError
   \<and> release_grasp (tolerant_world, init_arm) \<noteq> Inr (tolerant_world, init_arm)
   \<and> map_sum id (ag_release_counter \<circ> snd) (release_grasp (tolerant_world, init_arm))
       = Inr (Some 0)"
  by (simp add: release_grasp_def removeConstraint_def tolerant_world_def empty_world_def
      init_arm_def)

text \<open>
  The Holding state as the lifecycle tests it, with a held body that Python takes for
  true: a violation above the threshold starts the release whatever the command.
\<close>

lemma holding_violation_releases:
  assumes "ctrl_mode (gripper_controllers r arm) = ''binary''"
    and "ag_obj_in_hand s = Some b" and "b \<noteq> 0" and "ag_release_counter s = None"
    and "get_constraint_violation q (ag_obj_cid s) > 0.1"
  shows "handle_arm r q action arm (w, s) = release_grasp (w, s)"
  using assms
  by (simp add: handle_arm_def truthy_int_def CONSTRAINT_VIOLATION_THRESHOLD_def)

lemma release_grasp_holding:
  assumes "ag_obj_cid s = Some cid"
  shows "release_grasp (w, s) =
           Inr (w\<lparr>constraints := (constraints w)(cid := None)\<rparr>,
                s\<lparr>ag_data := None, ag_obj_cid := None, ag_obj_cid_params := empty_params,
                  ag_freeze_gripper := Some False, ag_release_counter := Some 0\<rparr>)"
  using assms by (simp add: release_grasp_def removeConstraint_def)

text \<open>
  C5 at the held body 0. After closing on body 0 the arm is in the Holding state (held
  object \<^verbatim>\<open>0\<close>, no release counter). A step with constraint violation 0.15 and a close
  command leaves it there: \<^verbatim>\<open>if self._ag_obj_in_hand[arm]:\<close> takes body id 0 for false,
  the violation is never read, and candidate selection runs again instead.
\<close>

theorem violation_body_zero_not_released:
  "map_option ag_obj_in_hand
     (arm_after (one_arm_robot ''sticky'') [(touch_sim 0 0, close_cmd)] empty_world ''0'')
     = Some (Some 0)
   \<and> map_option ag_release_counter
     (arm_after (one_arm_robot ''sticky'') [(touch_sim 0 0, close_cmd)] empty_world ''0'')
     = Some None
   \<and> map_option ag_obj_in_hand
     (arm_after (one_arm_robot ''sticky'')
        [(touch_sim 0 0, close_cmd), (touch_sim 0 0.15, close_cmd)] empty_world ''0'')
     = Some (Some 0)
   \<and> map_option ag_release_counter
     (arm_after (one_arm_robot ''sticky'')
        [(touch_sim 0 0, close_cmd), (touch_sim 0 0.15, close_cmd)] empty_world ''0'')
     = Some None"
  by (simp add: model_defs)

text \<open>
  C6. An arm that a run of steps has brought into the Releasing state (held object
  \<open>b\<close>, release counter \<open>k\<close>) takes one more step: the counter becomes \<open>k + 1\<close>; if
  \<open>k + 1\<close> times the step duration is at least 1/30, collision between every finger link
  of the arm and every link of \<open>b\<close> is enabled and the held object and the counter are
  cleared; otherwise nothing but the counter changes.
\<close>

theorem release_window_step:
  assumes "run r steps (init_state w0) = Inr (w, ag)"
    and "ag_obj_in_hand (ag arm) = Some b" and "ag_release_counter (ag arm) = Some k"
  shows "handle_arm r q action arm (w, ag arm) =
           (if real_of_int (k + 1) * render_timestep q \<ge> 1 / 30
            then Inr (set_coll_filter q b (finger_links r arm) True w,
                      (ag arm)\<lparr>ag_obj_in_hand := None, ag_release_counter := None\<rparr>)
            else Inr (w, (ag arm)\<lparr>ag_release_counter := Some (k + 1)\<rparr>))
         \<and> (\<forall>link \<in> set (finger_links r arm). \<forall>t \<in> set (target_link_idxs q b).
               collision_filter (set_coll_filter q b (finger_links r arm) True w)
                 (link_body_id link, b, link_link_id link, t) = Some True)"
proof -
  from reachable_inv [OF assms(1)] have "arm_inv r arm (ag arm)" .
  with assms(2,3) have mode: "ctrl_mode (gripper_controllers r arm) = ''binary''"
    and held: "truthy_int (ag_obj_in_hand (ag arm))"
    by (simp_all add: arm_inv_def)
  have step: "handle_arm r q action arm (w, ag arm) =
           (if real_of_int (k + 1) * render_timestep q \<ge> 1 / 30
            then Inr (set_coll_filter q b (finger_links r arm) True w,
                      (ag arm)\<lparr>ag_obj_in_hand := None, ag_release_counter := None\<rparr>)
            else Inr (w, (ag arm)\<lparr>ag_release_counter := Some (k + 1)\<rparr>))"
    using mode held assms(2,3)
    by (simp add: handle_arm_def handle_release_window_def Let_def RELEASE_WINDOW_def)
  have filter: "\<forall>link \<in> set (finger_links r arm). \<forall>t \<in> set (target_link_idxs q b).
               collision_filter (set_coll_filter q b (finger_links r arm) True w)
                 (link_body_id link, b, link_link_id link, t) = Some True"
    by (auto simp add: set_coll_filter_lookup image_iff)
  from step filter show ?thesis by blast
qed

theorem release_window_step_witness:
  "\<exists>w ag. run (one_arm_robot ''sticky'') [(touch_sim 5 0, close_cmd), (touch_sim 5 0, open_cmd)]
             (init_state empty_world) = Inr (w, ag)
     \<and> ag_obj_in_hand (ag ''0'') = Some 5 \<and> ag_release_counter (ag ''0'') = Some 0
     \<and> handle_arm (one_arm_robot ''sticky'') (touch_sim 5 0) open_cmd ''0'' (w, ag ''0'')
         = Inr (w, (ag ''0'')\<lparr>ag_release_counter := Some 1\<rparr>)
     \<and> handle_arm (one_arm_robot ''sticky'') (touch_sim 5 0) open_cmd ''0''
         (w, (ag ''0'')\<lparr>ag_release_counter := Some 1\<rparr>)
         = Inr (set_coll_filter (touch_sim 5 0) 5 (finger_links (one_arm_robot ''sticky'') ''0'')
                  True w,
                (ag ''0'')\<lparr>ag_obj_in_hand := None, ag_release_counter := None\<rparr>)
     \<and> collision_filter
          (set_coll_filter (touch_sim 5 0) 5 (finger_links (one_arm_robot ''sticky'') ''0'')
             True w) (1, 5, 8, -1) = Some True"
proof -
  have "\<exists>st. run (one_arm_robot ''sticky'')
                [(touch_sim 5 0, close_cmd), (touch_sim 5 0, open_cmd)]
                (init_state empty_world) = Inr st"
    using close_open_releasing by (auto simp add: arm_after_def split: sum.splits)
  then obtain w ag where
    run2: "run (one_arm_robot ''sticky'') [(touch_sim 5 0, close_cmd), (touch_sim 5 0, open_cmd)]
             (init_state empty_world) = Inr (w, ag)"
    by auto
  with close_open_releasing have arm: "ag ''0'' = releasing_arm"
    by (simp add: arm_after_def)
  have held: "ag_obj_in_hand (ag ''0'') = Some 5"
    and counter: "ag_release_counter (ag ''0'') = Some 0"
    by (simp_all add: arm releasing_arm_def)
  have dt: "render_timestep (touch_sim 5 0) = 1 / 60"
    by (simp add: touch_sim_def)
  have first: "handle_arm (one_arm_robot ''sticky'') (touch_sim 5 0) open_cmd ''0'' (w, ag ''0'')
         = Inr (w, (ag ''0'')\<lparr>ag_release_counter := Some 1\<rparr>)"
    using release_window_step [OF run2 held counter, of "touch_sim 5 0" open_cmd]
    by (simp add: dt)
  have fingers: "\<lparr>link_body_id = 1, link_link_id = 8\<rparr>
                   \<in> set (finger_links (one_arm_robot ''sticky'') ''0'')"
    and idxs: "-1 \<in> set (target_link_idxs (touch_sim 5 0) 5)"
    by (simp_all add: one_arm_robot_def target_link_idxs_def)
  have enabled: "collision_filter
          (set_coll_filter (touch_sim 5 0) 5 (finger_links (one_arm_robot ''sticky'') ''0'')
             True w) (1, 5, 8, -1) = Some True"
    using release_window_step [OF run2 held counter, of "touch_sim 5 0" open_cmd] fingers idxs
    by fastforce
  have second: "handle_arm (one_arm_robot ''sticky'') (touch_sim 5 0) open_cmd ''0''
         (w, (ag ''0'')\<lparr>ag_release_counter := Some 1\<rparr>)
         = Inr (set_coll_filter (touch_sim 5 0) 5 (finger_links (one_arm_robot ''sticky'') ''0'')
                  True w,
                (ag ''0'')\<lparr>ag_obj_in_hand := None, ag_release_counter := None\<rparr>)"
    by (simp add: arm releasing_arm_def handle_arm_def handle_release_window_def Let_def
        truthy_int_def one_arm_robot_def binary_jaw_def dt RELEASE_WINDOW_def)
  from run2 held counter first second enabled show ?thesis by blast
qed

subsection \<open>Claims about candidate selection\<close>

lemma hd_sort_key_in_set:
  assumes "xs \<noteq> []"
  shows "hd (sort_key f xs) \<in> set xs"
proof -
  have "sort_key f xs \<noteq> []"
    using assms by (metis length_sort list.size(3) length_0_conv)
  then have "hd (sort_key f xs) \<in> set (sort_key f xs)" by (rule hd_in_set)
  then show ?thesis by simp
qed

lemma nearest_in_cands:
  assumes "cands \<noteq> []"
  shows "nearest r q arm cands \<in> set cands"
proof -
  let ?cd = "candidate_data r q arm cands"
  have "?cd \<noteq> []" using assms by (simp add: candidate_data_def)
  from hd_sort_key_in_set [OF this] have "hd (sort_key (\<lambda>x. snd (snd x)) ?cd) \<in> set ?cd" .
  then obtain b l d where "(b, l) \<in> set cands"
    and "hd (sort_key (\<lambda>x. snd (snd x)) ?cd) = (b, l, d)"
    by (auto simp add: candidate_data_def Let_def)
  then show ?thesis
    by (simp add: nearest_def)
qed

lemma candidates_set_links:
  assumes "candidates_set r q arm = Inr (cands, links)"
  shows "links = robot_contact_links (gripper_contacts r q arm)"
    and "set cands \<subseteq> set (map obj_con_info (gripper_contacts r q arm))"
  using assms
  by (auto simp add: candidates_set_def find_gripper_contacts_def Let_def
      split: if_splits sum.splits)

text \<open>
  C4, as the code has it. When the candidate set is not empty and \<open>(b, l)\<close> is the
  nearest candidate, candidate selection raises an assertion error if \<open>b\<close> is one of the
  robot's own bodies; otherwise it returns none if the assistable predicate reports
  \<open>(b, l)\<close> ineligible or fewer than two distinct finger links of the arm touch it, and
  returns \<open>(b, l)\<close> if neither is the case.
\<close>

theorem candidate_rejection:
  assumes "candidates_set r q arm = Inr (cands, links)" and "cands \<noteq> []"
    and "nearest r q arm cands = (b, l)"
  shows "calculate_in_hand_object r q arm =
           (if b \<in> set (get_body_ids r) then Inl AssertionError
            else if \<not> can_assisted_grasp q b l \<or> card (fingers_touching r q arm (b, l)) < 2
                 then Inr None
                 else Inr (Some (b, l)))"
proof -
  from nearest_in_cands [OF assms(2), of r q arm] assms(3) have "(b, l) \<in> set cands" by simp
  with candidates_set_links [OF assms(1)]
  have "links (b, l) =
          Some (set (map linkIndexA (filter (\<lambda>c. obj_con_info c = (b, l)) (gripper_contacts r q arm))))"
    by (auto simp add: robot_contact_links_def)
  with assms show ?thesis
    by (auto simp add: calculate_in_hand_object_def fingers_touching_def Let_def)
qed

theorem candidate_rejection_witness:
  "\<exists>links. candidates_set (one_arm_robot ''sticky'') (one_finger_sim 5) ''0'' = Inr ([(5, -1)], links)
     \<and> [(5, -1)] \<noteq> ([] :: (int \<times> int) list)
     \<and> nearest (one_arm_robot ''sticky'') (one_finger_sim 5) ''0'' [(5, -1)] = (5, -1)
     \<and> card (fingers_touching (one_arm_robot ''sticky'') (one_finger_sim 5) ''0'' (5, -1)) = 1
     \<and> calculate_in_hand_object (one_arm_robot ''sticky'') (one_finger_sim 5) ''0'' = Inr None"
proof -
  have "\<exists>links. candidates_set (one_arm_robot ''sticky'') (one_finger_sim 5) ''0''
            = Inr ([(5, -1)], links)"
    by (simp add: model_defs one_finger_sim_def)
  then obtain links where
    c: "candidates_set (one_arm_robot ''sticky'') (one_finger_sim 5) ''0'' = Inr ([(5, -1)], links)"
    by blast
  have ne: "[(5, -1)] \<noteq> ([] :: (int \<times> int) list)" by simp
  have n: "nearest (one_arm_robot ''sticky'') (one_finger_sim 5) ''0'' [(5, -1)] = (5, -1)"
    by (simp add: model_defs one_finger_sim_def)
  have t: "card (fingers_touching (one_arm_robot ''sticky'') (one_finger_sim 5) ''0'' (5, -1)) = 1"
    by (simp add: model_defs one_finger_sim_def fingers_touching_def)
  have "calculate_in_hand_object (one_arm_robot ''sticky'') (one_finger_sim 5) ''0'' = Inr None"
    using candidate_rejection [OF c ne n] t by (simp add: one_arm_robot_def)
  with c ne n t show ?thesis by blast
qed

text \<open>
  C4 as stated fails: on a robot of the bodies 1 and 2 whose fingers touch body 2,
  candidate selection raises an assertion error and does not return none.
\<close>

theorem candidate_robot_itself_counterexample:
  "calculate_in_hand_object two_body_robot (touch_sim 2 0) ''0'' = Inl AssertionError"
  by (simp add: model_defs two_body_robot_def)

text \<open>Of two eligible candidates, each touched by both fingers, the nearer one is selected.\<close>

lemma nearest_candidate_example:
  "fst (find_gripper_contacts (one_arm_robot ''sticky'') two_object_sim ''0'') = [(5, -1), (6, -1)]
   \<and> calculate_in_hand_object (one_arm_robot ''sticky'') two_object_sim ''0'' = Inr (Some (6, -1))"
  by (simp add: model_defs two_object_sim_def)

text \<open>
  C7. In the assisted mode, with the raycast hits \<open>rays\<close> of the arm, the candidate set
  that goes to the distance ranking is the intersection of the finger-contact pairs and
  \<open>rays\<close>; when the two are disjoint, candidate selection returns none, whatever the
  contacts are.
\<close>

theorem assisted_candidates_intersection:
  assumes "grasping_mode r = ''assisted''"
    and "find_gripper_raycast_collisions r q arm = Inr rays"
  shows "\<exists>cands links. candidates_set r q arm = Inr (cands, links)
           \<and> set cands = set (fst (find_gripper_contacts r q arm)) \<inter> set rays
           \<and> (set (fst (find_gripper_contacts r q arm)) \<inter> set rays = {}
                \<longrightarrow> calculate_in_hand_object r q arm = Inr None)"
proof -
  obtain cs links where f: "find_gripper_contacts r q arm = (cs, links)"
    by (cases "find_gripper_contacts r q arm")
  let ?cands = "filter (\<lambda>c. c \<in> set rays) cs"
  have c: "candidates_set r q arm = Inr (?cands, links)"
    using assms f by (simp add: candidates_set_def)
  have s: "set ?cands = set (fst (find_gripper_contacts r q arm)) \<inter> set rays"
    using f by auto
  have "calculate_in_hand_object r q arm = Inr None"
    if "set (fst (find_gripper_contacts r q arm)) \<inter> set rays = {}"
  proof -
    from that s have "?cands = []" by (metis set_empty)
    with c show ?thesis by (simp add: calculate_in_hand_object_def)
  qed
  with c s show ?thesis by blast
qed

theorem assisted_candidates_intersection_witness:
  "grasping_mode assisted_robot = ''assisted''
   \<and> find_gripper_raycast_collisions assisted_robot ray_sim ''0'' = Inr [(6, -1)]
   \<and> fst (find_gripper_contacts assisted_robot ray_sim ''0'') = [(5, -1)]
   \<and> calculate_in_hand_object assisted_robot ray_sim ''0'' = Inr None"
proof -
  have m: "grasping_mode assisted_robot = ''assisted''"
    by (simp add: assisted_robot_def one_arm_robot_def)
  have rc: "find_gripper_raycast_collisions assisted_robot ray_sim ''0'' = Inr [(6, -1)]"
    by (simp add: find_gripper_raycast_collisions_def assisted_robot_def ray_sim_def
        model_defs grasp_point_world_def numeral_2_eq_2)
  have fc: "fst (find_gripper_contacts assisted_robot ray_sim ''0'') = [(5, -1)]"
    by (simp add: assisted_robot_def ray_sim_def model_defs)
  from assisted_candidates_intersection [OF m rc] fc
  have "calculate_in_hand_object assisted_robot ray_sim ''0'' = Inr None" by simp
  with m rc fc show ?thesis by blast
qed

subsection \<open>Claims about the attachment\<close>

lemma ASSIST_FORCE_value: "ASSIST_FORCE = 500"
  by (simp add: ASSIST_FORCE_def MIN_ASSIST_FORCE_def MAX_ASSIST_FORCE_def ASSIST_FRACTION_def)

lemma establish_grasp_result:
  assumes "establish_grasp r q arm (Some (ag_bid, ag_link)) (w, s) = Inr (w', s')"
  shows "\<exists>c. ag_obj_cid s' = Some (next_constraint w)
           \<and> constraints w' (next_constraint w) = Some c
           \<and> jointType c = (if articulated_child q ag_bid ag_link
                             then JOINT_POINT2POINT else JOINT_FIXED)
           \<and> maxForce c =
               Some (if (if articulated_child q ag_bid ag_link
                         then JOINT_POINT2POINT else JOINT_FIXED) = JOINT_FIXED
                     then ASSIST_FORCE else ASSIST_FORCE * ARTICULATED_ASSIST_FRACTION)
           \<and> p_jointType (ag_obj_cid_params s') =
               Some (if articulated_child q ag_bid ag_link
                     then JOINT_POINT2POINT else JOINT_FIXED)
           \<and> p_maxForce (ag_obj_cid_params s') =
               Some (if (if articulated_child q ag_bid ag_link
                         then JOINT_POINT2POINT else JOINT_FIXED) = JOINT_FIXED
                     then ASSIST_FORCE else ASSIST_FORCE * ARTICULATED_ASSIST_FRACTION)
           \<and> ag_obj_in_hand s' = Some ag_bid"
proof (cases "find (\<lambda>(c_bid, c_link, c_contact_pos). (c_bid, c_link) = (ag_bid, ag_link))
                (fst (find_gripper_contacts_positions r q arm))")
  case None
  with assms show ?thesis by (simp add: establish_grasp_def Let_def)
next
  case (Some hit)
  obtain c_bid c_link contact_pos where hit: "hit = (c_bid, c_link, contact_pos)"
    by (cases hit)
  from assms Some hit show ?thesis
    by (cases "articulated_child q ag_bid ag_link")
       (auto simp add: establish_grasp_def Let_def createConstraint_def changeConstraint_def
          set_coll_filter_constraints)
qed

text \<open>
  C8. Whenever a grasp is established on a candidate, the new attachment is either
  fixed or point-to-point; its maximum force is the configured constant
  \<open>ASSIST_FORCE\<close> (500) when it is fixed and 0.7 times that constant when it is
  point-to-point, and the recorded parameters say the same.
\<close>

theorem establish_max_force:
  assumes "establish_grasp r q arm (Some (ag_bid, ag_link)) (w, s) = Inr (w', s')"
  shows "\<exists>cid c. ag_obj_cid s' = Some cid \<and> constraints w' cid = Some c
           \<and> (jointType c = JOINT_FIXED \<or> jointType c = JOINT_POINT2POINT)
           \<and> maxForce c = Some (if jointType c = JOINT_FIXED then ASSIST_FORCE
                                 else 0.7 * ASSIST_FORCE)
           \<and> p_jointType (ag_obj_cid_params s') = Some (jointType c)
           \<and> p_maxForce (ag_obj_cid_params s') = maxForce c"
proof -
  let ?jt = "if articulated_child q ag_bid ag_link then JOINT_POINT2POINT else JOINT_FIXED"
  let ?mf = "if ?jt = JOINT_FIXED then ASSIST_FORCE else ASSIST_FORCE * ARTICULATED_ASSIST_FRACTION"
  from establish_grasp_result [OF assms]
  obtain c where cid: "ag_obj_cid s' = Some (next_constraint w)"
    and c: "constraints w' (next_constraint w) = Some c"
    and jt: "jointType c = ?jt" and mf: "maxForce c = Some ?mf"
    and pjt: "p_jointType (ag_obj_cid_params s') = Some ?jt"
    and pmf: "p_maxForce (ag_obj_cid_params s') = Some ?mf"
    by blast
  have kinds: "jointType c = JOINT_FIXED \<or> jointType c = JOINT_POINT2POINT"
    using jt by simp
  have force: "maxForce c = Some (if jointType c = JOINT_FIXED then ASSIST_FORCE
                                  else 0.7 * ASSIST_FORCE)"
    using jt mf by (simp add: ARTICULATED_ASSIST_FRACTION_def)
  from cid c kinds force pjt pmf jt mf show ?thesis by simp
qed

theorem establish_max_force_witness:
  "\<exists>w' s'. establish_grasp (one_arm_robot ''sticky'') (touch_sim 5 0) ''0'' (Some (5, -1))
              (empty_world, init_arm) = Inr (w', s')
     \<and> (\<exists>cid c. ag_obj_cid s' = Some cid \<and> constraints w' cid = Some c
           \<and> (jointType c = JOINT_FIXED \<or> jointType c = JOINT_POINT2POINT)
           \<and> maxForce c = Some (if jointType c = JOINT_FIXED then ASSIST_FORCE
                                 else 0.7 * ASSIST_FORCE))"
proof -
  have "\<exists>st. establish_grasp (one_arm_robot ''sticky'') (touch_sim 5 0) ''0'' (Some (5, -1))
               (empty_world, init_arm) = Inr st"
    by (simp add: model_defs)
  then obtain w' s' where
    e: "establish_grasp (one_arm_robot ''sticky'') (touch_sim 5 0) ''0'' (Some (5, -1))
          (empty_world, init_arm) = Inr (w', s')"
    by auto
  from establish_max_force [OF e] e show ?thesis by blast
qed

text \<open>
  The two kinds on the concrete robot: a whole body is held by a fixed attachment of
  force 500, a hinged child of a fixed-base object by a point-to-point one of force 350.
\<close>

lemma establish_fixed_example:
  "\<exists>w' s' c. establish_grasp (one_arm_robot ''sticky'') (touch_sim 5 0) ''0'' (Some (5, -1))
                (empty_world, init_arm) = Inr (w', s')
     \<and> ag_obj_cid s' = Some 0 \<and> constraints w' 0 = Some c
     \<and> jointType c = JOINT_FIXED \<and> maxForce c = Some 500"
  by (simp add: model_defs)

lemma establish_point2point_example:
  "\<exists>w' s' c. establish_grasp (one_arm_robot ''sticky'') hinge_sim ''0'' (Some (5, 2))
                (empty_world, init_arm) = Inr (w', s')
     \<and> ag_obj_cid s' = Some 0 \<and> constraints w' 0 = Some c
     \<and> jointType c = JOINT_POINT2POINT \<and> maxForce c = Some 350"
  by (simp add: model_defs hinge_sim_def)

subsection \<open>Claims about the grasping query and the snapshot\<close>

text \<open>Python's \<^verbatim>\<open>int\<close> on some keys.\<close>

lemma py_int_examples:
  "py_int (StrKey '' 12 '') = Inr 12"
  "py_int (StrKey ''-1_0'') = Inr (-10)"
  "py_int (IntKey 7) = Inr 7"
  "py_int (StrKey ''1__0'') = Inl ValueError"
  "py_int (StrKey []) = Inl ValueError"
  "py_int (StrKey ''finger_joint'') = Inl ValueError"
  by (simp_all add: py_int_def py_int_str_def py_strip_def py_space_def is_digit_def
      digits_value_def)


text \<open>
  C10. In a grasping mode other than the physical one, for an arm of the robot, the
  query returns \<^verbatim>\<open>TRUE\<close> exactly when the held-object reference is set (and is the
  candidate, when one is given) and no release counter is present, and \<^verbatim>\<open>FALSE\<close>
  otherwise; it never returns \<^verbatim>\<open>UNKNOWN\<close>, and it returns \<^verbatim>\<open>FALSE\<close> as long as a release
  counter is present, whatever is held.
\<close>

theorem is_grasping_assisted:
  assumes "grasping_mode r \<noteq> ''physical''"
    and "resolve_arm r arm0 = Inr arm" and "arm \<in> set (arm_names r)"
  shows "is_grasping r q ag arm0 candidate_obj =
           Inr (if (case candidate_obj of
                      None \<Rightarrow> ag_obj_in_hand (ag arm) \<noteq> None
                    | Some obj \<Rightarrow> ag_obj_in_hand (ag arm) = Some obj)
                   \<and> ag_release_counter (ag arm) = None
                then TRUE else FALSE)
         \<and> is_grasping r q ag arm0 candidate_obj \<noteq> Inr UNKNOWN
         \<and> (ag_release_counter (ag arm) \<noteq> None
              \<longrightarrow> is_grasping r q ag arm0 candidate_obj = Inr FALSE)"
  using assms by (simp add: is_grasping_def and_then_def)

theorem is_grasping_assisted_witness:
  "grasping_mode (one_arm_robot ''sticky'') \<noteq> ''physical''
   \<and> resolve_arm (one_arm_robot ''sticky'') ''default'' = Inr ''0''
   \<and> ''0'' \<in> set (arm_names (one_arm_robot ''sticky''))
   \<and> ag_obj_in_hand releasing_arm = Some 5
   \<and> is_grasping (one_arm_robot ''sticky'') (touch_sim 5 0) (\<lambda>arm. releasing_arm)
        ''default'' None = Inr FALSE
   \<and> is_grasping (one_arm_robot ''sticky'') (touch_sim 5 0) (\<lambda>arm. releasing_arm)
        ''default'' (Some 5) = Inr FALSE"
proof -
  have m: "grasping_mode (one_arm_robot ''sticky'') \<noteq> ''physical''"
    and a: "resolve_arm (one_arm_robot ''sticky'') ''default'' = Inr ''0''"
    and n: "''0'' \<in> set (arm_names (one_arm_robot ''sticky''))"
    by (simp_all add: one_arm_robot_def resolve_arm_def default_arm_def)
  have c: "ag_release_counter releasing_arm \<noteq> None" and h: "ag_obj_in_hand releasing_arm = Some 5"
    by (simp_all add: releasing_arm_def)
  from is_grasping_assisted [OF m a n, of "touch_sim 5 0" "\<lambda>arm. releasing_arm" None]
    is_grasping_assisted [OF m a n, of "touch_sim 5 0" "\<lambda>arm. releasing_arm" "Some 5"]
    m a n c h
  show ?thesis by simp
qed

text \<open>
  C9 on the concrete robot. After closing on body 5 the arm is in the Holding state and
  its frozen joint positions are keyed by the joint name \<^verbatim>\<open>finger_joint\<close>. A snapshot
  followed by a restore of it raises a value error: \<^verbatim>\<open>load_state\<close> converts the keys
  of the frozen joint positions with \<^verbatim>\<open>int\<close>, after it has removed the attachment and
  before it creates the new one.
\<close>

theorem snapshot_restore_holding_raises:
  "map_option ag_obj_in_hand
     (arm_after (one_arm_robot ''sticky'') [(touch_sim 5 0, close_cmd)] empty_world ''0'')
     = Some (Some 5)
   \<and> map_option ag_release_counter
     (arm_after (one_arm_robot ''sticky'') [(touch_sim 5 0, close_cmd)] empty_world ''0'')
     = Some None
   \<and> map_option ag_freeze_joint_pos
     (arm_after (one_arm_robot ''sticky'') [(touch_sim 5 0, close_cmd)] empty_world ''0'')
     = Some [(StrKey ''finger_joint'', 0.02)]
   \<and> snapshot_restore_after (one_arm_robot ''sticky'') [(touch_sim 5 0, close_cmd)]
       (touch_sim 5 0) empty_world = Inl ValueError"
  by (simp add: model_defs snapshot_defs)

text \<open>
  With no finger joint to freeze, the same round trip returns: the old attachment 0 is
  gone, the new attachment 1 has the joint kind and the maximum force of the old one, and
  collision between the finger links and the held body is disabled.
\<close>

lemma snapshot_restore_jointless:
  "\<exists>w ag c. snapshot_restore_after jointless_robot [(touch_sim 5 0, close_cmd)]
              (touch_sim 5 0) empty_world = Inr (w, ag)
     \<and> ag_obj_in_hand (ag ''0'') = Some 5 \<and> ag_obj_cid (ag ''0'') = Some 1
     \<and> constraints w 0 = None \<and> constraints w 1 = Some c
     \<and> jointType c = JOINT_FIXED \<and> maxForce c = Some 500
     \<and> collision_filter w (1, 5, 8, -1) = Some False
     \<and> collision_filter w (1, 5, 9, -1) = Some False"
  by (simp add: model_defs snapshot_defs jointless_robot_def)

end
